theory Spec2Isabelle
  imports Complex_Main
begin

section \<open>Values of the host language\<close>

text \<open>
  A TypeScript \<open>number\<close> holding money or a fraction is an IEEE double. A finite
  double is the rational it denotes; \<open>NaN\<close> and the infinities are left out. Primary
  keys of the store are abstract identifiers, timestamps are milliseconds.
\<close>

type_synonym number = rat
type_synonym ident = nat
type_synonym timestamp = int

subsection \<open>Arithmetic of doubles\<close>

text \<open>
  A sum, a difference or a product of two doubles is the exact result rounded to the
  nearest double, ties to the even significand. \<open>roundDouble\<close> is that rounding: the
  binade of \<open>x\<close> is found from the bit lengths of its numerator and denominator, the
  unit in the last place is 52 binary places below it (and never below that of the
  subnormal numbers), and the quotient of \<open>x\<close> by the unit is rounded to an integer,
  half to even. A result beyond the largest double would be infinite and is outside
  this model.
\<close>

function pow2 :: "int \<Rightarrow> rat" where
  "pow2 k = (if k = 0 then 1 else if 0 < k then 2 * pow2 (k - 1) else pow2 (k + 1) / 2)"
  by pat_completeness auto
termination
  by (relation "measure (\<lambda>k. nat \<bar>k\<bar>)") auto

declare pow2.simps [simp del]

function bitLength :: "int \<Rightarrow> int" where
  "bitLength n = (if n \<le> 0 then 0 else 1 + bitLength (n div 2))"
  by pat_completeness auto
termination
  by (relation "measure nat") auto

declare bitLength.simps [simp del]

text \<open>The exponent of the binade of a positive rational: the floor of its binary logarithm.\<close>

definition ilog2 :: "rat \<Rightarrow> int" where
  "ilog2 x =
     (let k = bitLength (fst (quotient_of x)) - bitLength (snd (quotient_of x))
      in if pow2 k \<le> x then k else k - 1)"

definition roundHalfEven :: "rat \<Rightarrow> int" where
  "roundHalfEven m =
     (let f = \<lfloor>m\<rfloor>; d = m - of_int f
      in if d < 1 / 2 then f else if 1 / 2 < d then f + 1 else if even f then f else f + 1)"

definition roundDouble :: "rat \<Rightarrow> number" where
  "roundDouble x =
     (if x = 0 then 0
      else let e = max (ilog2 \<bar>x\<bar>) (- 1022); ulp = pow2 (e - 52)
           in of_int (roundHalfEven (x / ulp)) * ulp)"

definition fadd :: "number \<Rightarrow> number \<Rightarrow> number" where
  "fadd a b = roundDouble (a + b)"

definition fsub :: "number \<Rightarrow> number \<Rightarrow> number" where
  "fsub a b = roundDouble (a - b)"

definition fmul :: "number \<Rightarrow> number \<Rightarrow> number" where
  "fmul a b = roundDouble (a * b)"

text \<open>
  \<open>x.toFixed(2)\<close>, as the number its digits denote: the integer \<open>n\<close> with \<open>n / 100\<close>
  nearest to the exact value of \<open>x\<close>, the larger one at a tie; the sign is set aside
  first. (For magnitudes below \<open>10^21\<close>.)
\<close>

definition toFixed2 :: "number \<Rightarrow> rat" where
  "toFixed2 x =
     (if x < 0 then - (of_int \<lfloor>(- x) * 100 + 1 / 2\<rfloor> / 100)
      else of_int \<lfloor>x * 100 + 1 / 2\<rfloor> / 100)"

text \<open>
  The \<open>_sum\<close> of an aggregate over a column of doubles: the store adds the values in
  doubles, here in the order of the rows.
\<close>

definition sumDoubles :: "number list \<Rightarrow> number" where
  "sumDoubles xs = foldl fadd 0 xs"

text \<open>
  A field of an inbound JSON payload typed \<open>string | null | undefined\<close>. A column of
  the store typed \<open>string | null\<close> is an \<open>option\<close>.
\<close>

datatype 'a field = Undefined | Null | Val 'a

text \<open>\<open>a ?? b\<close> where \<open>b\<close> is a nullable column.\<close>

fun orElse :: "'a field \<Rightarrow> 'a option \<Rightarrow> 'a option" where
  "orElse (Val a) b = Some a"
| "orElse Null b = b"
| "orElse Undefined b = b"

text \<open>\<open>a !== b\<close> between a payload field and a column read from the store.\<close>

fun strictNeq :: "'a option \<Rightarrow> 'a field \<Rightarrow> bool" where
  "strictNeq (Some a) (Val b) = (a \<noteq> b)"
| "strictNeq None Null = False"
| "strictNeq None Undefined = True"
| "strictNeq None (Val b) = True"
| "strictNeq (Some a) Null = True"
| "strictNeq (Some a) Undefined = True"

text \<open>Truthiness of a string and of an optional string: empty and absent are falsy.\<close>

definition truthy :: "string \<Rightarrow> bool" where
  "truthy s = (s \<noteq> [])"

fun truthyOpt :: "string option \<Rightarrow> bool" where
  "truthyOpt None = False"
| "truthyOpt (Some s) = truthy s"

text \<open>\<open>String.prototype.toLowerCase\<close> on ASCII letters, and \<open>includes\<close>.\<close>

definition toLowerChar :: "char \<Rightarrow> char" where
  "toLowerChar c =
     (let n = (of_char c :: nat) in if 65 \<le> n \<and> n \<le> 90 then char_of (n + 32) else c)"

definition toLowerCase :: "string \<Rightarrow> string" where
  "toLowerCase s = map toLowerChar s"

fun str_includes :: "string \<Rightarrow> string \<Rightarrow> bool" where
  "str_includes [] needle = (needle = [])"
| "str_includes (c # cs) needle =
     (take (length needle) (c # cs) = needle \<or> str_includes cs needle)"

section \<open>Data model of the store\<close>

datatype RewardStatus = PENDING | PAID | FAILED

record Referrer =
  referrer_id :: ident
  referrer_shopifyCustomerId :: string
  referrer_email :: "string option"
  referrer_firstName :: "string option"
  referrer_lastName :: "string option"
  referrer_createdAt :: timestamp
  referrer_updatedAt :: timestamp

record Code =
  code_id :: ident
  code_code :: string
  code_referrerId :: ident
  code_shopifyDiscountId :: "string option"
  code_usageCount :: int
  code_maxUsage :: int
  code_active :: bool
  code_createdAt :: timestamp
  code_updatedAt :: timestamp
  code_expiresAt :: "timestamp option"
  code_originOrderId :: "string option"
  code_originOrderGid :: "string option"
  code_workshopProductId :: "string option"
  code_workshopProductTitle :: "string option"
  code_workshopQuantity :: int
  code_discountSnapshot :: "number option"
  code_cashbackSnapshot :: "number option"

record Referral =
  referral_id :: ident
  referral_referrerId :: ident
  referral_codeId :: "ident option"
  referral_refereeShopifyCustomerId :: "string option"
  referral_refereeEmail :: "string option"
  referral_refereeFirstName :: "string option"
  referral_refereeLastName :: "string option"
  referral_orderId :: "string option"
  referral_workshopProductId :: "string option"
  referral_workshopProductTitle :: "string option"
  referral_createdAt :: timestamp

record Reward =
  reward_id :: ident
  reward_referrerId :: ident
  reward_referralId :: "ident option"
  reward_amount :: number
  reward_currency :: string
  reward_status :: RewardStatus
  reward_notes :: "string option"
  reward_workshopProductId :: "string option"
  reward_workshopProductTitle :: "string option"
  reward_createdAt :: timestamp
  reward_updatedAt :: timestamp
  reward_paidAt :: "timestamp option"

record ReferralSettings =
  discountPercentage :: number
  cashbackAmount :: number
  codeValidityDays :: int
  appliesOncePerCustomer :: bool
  maxUsagePerCode :: int
  maxRefundPercentage :: number
  customerSegmentIds :: "string list"

text \<open>
  What a refund request sends to the commerce platform: the note, the order, the amount
  of the single transaction of kind REFUND, and either the parent transaction or the
  gateway of the fallback.
\<close>

datatype refund_via = ViaParent string | ViaGateway string

record refund_input =
  refund_note :: string
  refund_orderId :: string
  refund_amount :: number
  refund_via :: refund_via

text \<open>
  The state every operation threads: the five tables and the settings row, the clock and
  the next primary key of the store, and what the operation has sent out so far (refund
  requests in order, the waits between retries, the fallback warnings, the confirmation
  e-mails asked for).
\<close>

record world =
  referrers :: "Referrer list"
  codes :: "Code list"
  referrals :: "Referral list"
  rewards :: "Reward list"
  appSetting :: "ReferralSettings option"
  nextId :: ident
  clock :: timestamp
  outbox :: "refund_input list"
  sleeps :: "nat list"
  warnings :: "string list"
  cashbackEmails :: "(ident \<times> number) list"

text \<open>
  Every \<open>throw\<close> of the operations. The refund-limit error carries what its message
  prints: the headroom with two decimals and the currency of the reward.
\<close>

datatype error =
    RewardNotFound
  | NotPending
  | NoOrder
  | RefundLimitReached number string
  | AdminCallFailed
  | GraphqlErrors "string list"
  | UnexpectedResponse
  | ShopifyUserErrors "string option list"
  | RetriesExhausted
  | RecordNotFound
  | UniqueConstraint
  | CodeGenerationExhausted

section \<open>The commerce platform, as one invocation sees it\<close>

text \<open>
  The answers of the platform to one settlement. The transaction query fails or gives
  the edges of the order's transactions (an edge may lack its node, a node any of its
  fields). The total query fails, gives no amount (absent or empty string), or gives an
  amount string, kept as the double \<open>parseFloat\<close> makes of it. The answer to the \<open>n\<close>-th refund request of
  the settlement is a failed call, or a response with its top-level errors and its
  \<open>refundCreate\<close> payload, if any: the messages of the user errors (a user error may
  lack its message) and the refund.
\<close>

record tx_node =
  tx_id :: "string option"
  tx_kind :: "string option"
  tx_status :: "string option"

datatype transactions_response = TransactionsFailed | Transactions "tx_node option list"

datatype total_response = TotalFailed | TotalAbsent | TotalAmount number

record refund_payload =
  userErrors :: "string option list"
  refund :: "string option"

datatype refund_response =
    CallFailed
  | Responded "string list" "refund_payload option"

record shopify =
  orderTransactions :: "string \<Rightarrow> transactions_response"
  orderTotal :: "string \<Rightarrow> total_response"
  refundCreate :: "nat \<Rightarrow> refund_response"
  SHOPIFY_REFUND_GATEWAY :: "string option"

section \<open>Settings provider\<close>

definition DEFAULT_SETTINGS :: ReferralSettings where
  "DEFAULT_SETTINGS =
     \<lparr> discountPercentage = 1 / 10, cashbackAmount = 20, codeValidityDays = 30,
       appliesOncePerCustomer = True, maxUsagePerCode = 0, maxRefundPercentage = 1,
       customerSegmentIds = [] \<rparr>"

text \<open>
  \<open>getReferralSettings\<close> reads the singleton row and creates it from the defaults when
  it is missing. The row stores the segment ids as JSON text; serialising a list of
  strings and parsing it back gives the same list, so the row is kept as the settings
  value itself.
\<close>

definition getReferralSettings :: "world \<Rightarrow> ReferralSettings \<times> world" where
  "getReferralSettings w =
     (case appSetting w of
        None \<Rightarrow> (DEFAULT_SETTINGS, w\<lparr>appSetting := Some DEFAULT_SETTINGS\<rparr>)
      | Some s \<Rightarrow> (s, w))"

section \<open>Reward ledger\<close>

definition findReward :: "ident \<Rightarrow> world \<Rightarrow> Reward option" where
  "findReward rid w = find (\<lambda>r. reward_id r = rid) (rewards w)"

definition findReferral :: "ident \<Rightarrow> world \<Rightarrow> Referral option" where
  "findReferral fid w = find (\<lambda>f. referral_id f = fid) (referrals w)"

definition findCode :: "ident \<Rightarrow> world \<Rightarrow> Code option" where
  "findCode cid w = find (\<lambda>c. code_id c = cid) (codes w)"

text \<open>The relations a query includes: \<open>reward.referral\<close> and \<open>referral.code\<close>.\<close>

definition rewardReferral :: "world \<Rightarrow> Reward \<Rightarrow> Referral option" where
  "rewardReferral w r =
     (case reward_referralId r of None \<Rightarrow> None | Some fid \<Rightarrow> findReferral fid w)"

definition referralCode :: "world \<Rightarrow> Referral \<Rightarrow> Code option" where
  "referralCode w f =
     (case referral_codeId f of None \<Rightarrow> None | Some cid \<Rightarrow> findCode cid w)"

definition rewardCode :: "world \<Rightarrow> Reward \<Rightarrow> Code option" where
  "rewardCode w r =
     (case rewardReferral w r of None \<Rightarrow> None | Some f \<Rightarrow> referralCode w f)"

text \<open>
  Modelled from the spec: the store's schema file is not among the sources (only its
  migrations are), so that an update refreshes the \<open>updatedAt\<close> column of the row it
  writes is taken from the data model of the specification (created/updated
  timestamps). An update by primary key fails when no row has the key.
\<close>

definition updateReward :: "ident \<Rightarrow> (Reward \<Rightarrow> Reward) \<Rightarrow> world \<Rightarrow> error + world" where
  "updateReward rid f w =
     (case findReward rid w of
        None \<Rightarrow> Inl RecordNotFound
      | Some _ \<Rightarrow>
          Inr (w\<lparr>rewards :=
                 map (\<lambda>r. if reward_id r = rid then (f r)\<lparr>reward_updatedAt := clock w\<rparr> else r)
                   (rewards w)\<rparr>))"

definition updateCode :: "ident \<Rightarrow> (Code \<Rightarrow> Code) \<Rightarrow> world \<Rightarrow> error + world" where
  "updateCode cid f w =
     (case findCode cid w of
        None \<Rightarrow> Inl RecordNotFound
      | Some _ \<Rightarrow>
          Inr (w\<lparr>codes :=
                 map (\<lambda>c. if code_id c = cid then (f c)\<lparr>code_updatedAt := clock w\<rparr> else c)
                   (codes w)\<rparr>))"

definition markRewardAsPaid :: "ident \<Rightarrow> world \<Rightarrow> error + world" where
  "markRewardAsPaid rewardId w =
     updateReward rewardId
       (\<lambda>r. r\<lparr>reward_status := PAID, reward_paidAt := Some (clock w)\<rparr>) w"

definition getTotalRefundedForCode :: "string \<Rightarrow> world \<Rightarrow> number" where
  "getTotalRefundedForCode originOrderGid w =
     (let codeIds =
            map code_id (filter (\<lambda>c. code_originOrderGid c = Some originOrderGid) (codes w))
      in if codeIds = [] then 0
         else sumDoubles (map reward_amount
                (filter (\<lambda>r. reward_status r = PAID \<and>
                              (case rewardReferral w r of
                                 None \<Rightarrow> False
                               | Some f \<Rightarrow>
                                   (case referral_codeId f of
                                      None \<Rightarrow> False
                                    | Some cid \<Rightarrow> cid \<in> set codeIds)))
                   (rewards w))))"

section \<open>External order queries\<close>

text \<open>
  \<open>getOrderTransactionParentId\<close>: the first transaction of kind CAPTURE or SALE with
  status SUCCESS, then the first transaction of the list, then null; a failed query
  gives null.
\<close>

definition validTransaction :: "tx_node option \<Rightarrow> bool" where
  "validTransaction edge =
     (case edge of
        None \<Rightarrow> False
      | Some node \<Rightarrow>
          (tx_kind node = Some ''CAPTURE'' \<or> tx_kind node = Some ''SALE'') \<and>
          tx_status node = Some ''SUCCESS'')"

definition nodeId :: "tx_node option option \<Rightarrow> string option" where
  "nodeId e =
     (case e of None \<Rightarrow> None | Some None \<Rightarrow> None | Some (Some node) \<Rightarrow> tx_id node)"

definition firstEdge :: "tx_node option list \<Rightarrow> tx_node option option" where
  "firstEdge transactions = (case transactions of [] \<Rightarrow> None | e # _ \<Rightarrow> Some e)"

definition getOrderTransactionParentId :: "transactions_response \<Rightarrow> string option" where
  "getOrderTransactionParentId response =
     (case response of
        TransactionsFailed \<Rightarrow> None
      | Transactions transactions \<Rightarrow>
          (case nodeId (find validTransaction transactions) of
             Some i \<Rightarrow> Some i
           | None \<Rightarrow> nodeId (firstEdge transactions)))"

text \<open>
  \<open>getOrderTotalAmount\<close>: the parsed amount, null when the amount is absent or empty or
  when the query fails.
\<close>

definition getOrderTotalAmount :: "total_response \<Rightarrow> number option" where
  "getOrderTotalAmount response =
     (case response of
        TotalFailed \<Rightarrow> None
      | TotalAbsent \<Rightarrow> None
      | TotalAmount a \<Rightarrow> Some a)"

section \<open>Refund execution\<close>

definition DEFAULT_REFUND_NOTE :: string where
  "DEFAULT_REFUND_NOTE = ''Remboursement automatique - Parrainage''"

definition maxRetries :: nat where
  "maxRetries = 3"

definition retryDelay :: nat where
  "retryDelay = 2000"

definition isOrderUnavailableError :: "string option list \<Rightarrow> bool" where
  "isOrderUnavailableError errs =
     list_ex (\<lambda>m. case m of
                    None \<Rightarrow> False
                  | Some s \<Rightarrow>
                      str_includes (toLowerCase s) ''temporarily unavailable'' \<or>
                      str_includes (toLowerCase s) ''unavailable to be modified'')
       errs"

function refundLoop ::
  "shopify \<Rightarrow> refund_input \<Rightarrow> nat \<Rightarrow> world \<Rightarrow> (error + string option) \<times> world" where
  "refundLoop env variables attempt w =
     (if attempt < maxRetries then
        (case refundCreate env attempt of
           CallFailed \<Rightarrow> (Inl AdminCallFailed, w\<lparr>outbox := outbox w @ [variables]\<rparr>)
         | Responded errs payload \<Rightarrow>
             if errs \<noteq> [] then (Inl (GraphqlErrors errs), w\<lparr>outbox := outbox w @ [variables]\<rparr>)
             else
               (case payload of
                  None \<Rightarrow> (Inl UnexpectedResponse, w\<lparr>outbox := outbox w @ [variables]\<rparr>)
                | Some p \<Rightarrow>
                    if userErrors p \<noteq> [] then
                      (if isOrderUnavailableError (userErrors p) \<and> attempt < maxRetries - 1
                       then refundLoop env variables (attempt + 1)
                              (w\<lparr>outbox := outbox w @ [variables],
                                 sleeps := sleeps w @ [retryDelay * (attempt + 1)]\<rparr>)
                       else (Inl (ShopifyUserErrors (userErrors p)),
                             w\<lparr>outbox := outbox w @ [variables]\<rparr>))
                    else (Inr (refund p), w\<lparr>outbox := outbox w @ [variables]\<rparr>)))
      else (Inl RetriesExhausted, w))"
  by pat_completeness auto
termination
  by (relation "measure (\<lambda>(env, variables, attempt, w). maxRetries - attempt)") auto

declare refundLoop.simps [simp del]

text \<open>\<open>note ?? DEFAULT_REFUND_NOTE\<close> and \<open>process.env.SHOPIFY_REFUND_GATEWAY ?? "store-credit"\<close>\<close>

definition noteOf :: "string option \<Rightarrow> string" where
  "noteOf note = (case note of None \<Rightarrow> DEFAULT_REFUND_NOTE | Some n \<Rightarrow> n)"

definition gatewayOf :: "shopify \<Rightarrow> string" where
  "gatewayOf env =
     (case SHOPIFY_REFUND_GATEWAY env of None \<Rightarrow> ''store-credit'' | Some g \<Rightarrow> g)"

text \<open>
  \<open>createReferralRefund\<close>: without a truthy parent transaction id the fallback is
  warned about and the request names the gateway; otherwise the request names the
  parent transaction. The currency is not part of the request.
\<close>

definition createReferralRefund ::
  "shopify \<Rightarrow> string \<Rightarrow> number \<Rightarrow> string \<Rightarrow> string option \<Rightarrow> world
     \<Rightarrow> (error + string option) \<times> world" where
  "createReferralRefund env orderGid amount currency note w =
     (let parentId = getOrderTransactionParentId (orderTransactions env orderGid)
      in case (if truthyOpt parentId then parentId else None) of
           None \<Rightarrow>
             refundLoop env
               \<lparr> refund_note = noteOf note, refund_orderId = orderGid,
                 refund_amount = amount, refund_via = ViaGateway (gatewayOf env) \<rparr>
               0 (w\<lparr>warnings := warnings w @ [orderGid]\<rparr>)
         | Some pid \<Rightarrow>
             refundLoop env
               \<lparr> refund_note = noteOf note, refund_orderId = orderGid,
                 refund_amount = amount, refund_via = ViaParent pid \<rparr>
               0 w)"

section \<open>Refund settlement engine\<close>

record ProcessRewardRefundResult =
  result_rewardId :: ident
  result_totalRefunded :: number
  result_maxRefundAllowed :: "number option"

definition REFUND_NOTE :: string where
  "REFUND_NOTE = ''Remboursement manuel - Parrainage''"

text \<open>\<open>extractNumericId\<close>: the last segment of the gid, or the gid when it is empty.\<close>

definition lastSegment :: "string \<Rightarrow> string" where
  "lastSegment gid = rev (takeWhile (\<lambda>c. c \<noteq> CHR ''/'') (rev gid))"

definition extractNumericId :: "string \<Rightarrow> string" where
  "extractNumericId gid = (if lastSegment gid = [] then gid else lastSegment gid)"

text \<open>\<open>orderGidOverride ?? reward.referral?.code?.originOrderGid\<close>\<close>

definition resolveOrderGid :: "string option \<Rightarrow> Code option \<Rightarrow> string option" where
  "resolveOrderGid orderGidOverride code =
     (case orderGidOverride of
        Some g \<Rightarrow> Some g
      | None \<Rightarrow> (case code of None \<Rightarrow> None | Some c \<Rightarrow> code_originOrderGid c))"

text \<open>
  An override given for a reward whose code carries no origin order is written onto
  the code.
\<close>

definition backfillOrigin :: "string option \<Rightarrow> Code option \<Rightarrow> world \<Rightarrow> error + world" where
  "backfillOrigin orderGidOverride code w =
     (case orderGidOverride of
        None \<Rightarrow> Inr w
      | Some g \<Rightarrow>
          (case code of
             None \<Rightarrow> Inr w
           | Some c \<Rightarrow>
               if truthy g \<and> \<not> truthyOpt (code_originOrderGid c)
               then updateCode (code_id c)
                      (\<lambda>c. c\<lparr>code_originOrderGid := Some g,
                              code_originOrderId := Some (extractNumericId g)\<rparr>) w
               else Inr w))"

text \<open>
  The ceiling: \<open>orderTotalAmount ? orderTotalAmount * settings.maxRefundPercentage : null\<close>.
  The test is the truthiness of a number: null and zero both give null. The product is
  that of doubles.
\<close>

definition maxRefundAllowedOf :: "number option \<Rightarrow> ReferralSettings \<Rightarrow> number option" where
  "maxRefundAllowedOf orderTotalAmount settings =
     (case orderTotalAmount of
        None \<Rightarrow> None
      | Some t \<Rightarrow> if t = 0 then None else Some (fmul t (maxRefundPercentage settings)))"

text \<open>
  The confirmation e-mail is asked for after the reward is marked; a failure of the
  sending is logged and swallowed, and touches none of the tables modelled here.
\<close>

definition sendCashbackConfirmationEmail :: "Reward \<Rightarrow> world \<Rightarrow> world" where
  "sendCashbackConfirmationEmail reward w =
     w\<lparr>cashbackEmails := cashbackEmails w @ [(reward_referrerId reward, reward_amount reward)]\<rparr>"

text \<open>
  The part of \<open>processRewardRefund\<close> after the order is resolved: settings, order total
  and the sum already paid, the ceiling check, the refund, the status write, the e-mail.
  The sum compared with the ceiling, the headroom and the total returned are computed
  in doubles.
\<close>

definition settleAgainst ::
  "shopify \<Rightarrow> Reward \<Rightarrow> string \<Rightarrow> world
     \<Rightarrow> (error + ProcessRewardRefundResult) \<times> world" where
  "settleAgainst env reward originOrderGid w =
     (let settings = fst (getReferralSettings w);
          w1 = snd (getReferralSettings w);
          orderTotalAmount = getOrderTotalAmount (orderTotal env originOrderGid);
          totalRefundedBefore = getTotalRefundedForCode originOrderGid w1;
          maxRefundAllowed = maxRefundAllowedOf orderTotalAmount settings
      in case (case maxRefundAllowed of
                 None \<Rightarrow> None
               | Some m \<Rightarrow>
                   if fadd totalRefundedBefore (reward_amount reward) > m
                   then Some (max 0 (fsub m totalRefundedBefore)) else None) of
           Some refundLeft \<Rightarrow>
             (Inl (RefundLimitReached (toFixed2 refundLeft) (reward_currency reward)), w1)
         | None \<Rightarrow>
             (case createReferralRefund env originOrderGid (reward_amount reward)
                     (reward_currency reward) (Some REFUND_NOTE) w1 of
                (Inl e, w2) \<Rightarrow> (Inl e, w2)
              | (Inr _, w2) \<Rightarrow>
                  (case markRewardAsPaid (reward_id reward) w2 of
                     Inl e \<Rightarrow> (Inl e, w2)
                   | Inr w3 \<Rightarrow>
                       (Inr \<lparr> result_rewardId = reward_id reward,
                              result_totalRefunded =
                                fadd totalRefundedBefore (reward_amount reward),
                              result_maxRefundAllowed = maxRefundAllowed \<rparr>,
                        sendCashbackConfirmationEmail reward w3))))"

definition processRewardRefund ::
  "shopify \<Rightarrow> ident \<Rightarrow> string option \<Rightarrow> world
     \<Rightarrow> (error + ProcessRewardRefundResult) \<times> world" where
  "processRewardRefund env rewardId orderGidOverride w =
     (case findReward rewardId w of
        None \<Rightarrow> (Inl RewardNotFound, w)
      | Some reward \<Rightarrow>
          if reward_status reward \<noteq> PENDING then (Inl NotPending, w)
          else
            (case resolveOrderGid orderGidOverride (rewardCode w reward) of
               None \<Rightarrow> (Inl NoOrder, w)
             | Some originOrderGid \<Rightarrow>
                 if \<not> truthy originOrderGid then (Inl NoOrder, w)
                 else
                   (case backfillOrigin orderGidOverride (rewardCode w reward) w of
                      Inl e \<Rightarrow> (Inl e, w)
                    | Inr w1 \<Rightarrow> settleAgainst env reward originOrderGid w1)))"

section \<open>Vocabulary of the properties\<close>

text \<open>
  How one answer of the platform to a refund request is classified by the retry loop:
  success (no error of any kind), the retryable user error, and every other failure.
  The refund step fails when the first answer is a permanent failure, or a retry ends
  in one, or the third answer is still not a success.
\<close>

definition succeeded :: "refund_response \<Rightarrow> bool" where
  "succeeded r =
     (case r of
        CallFailed \<Rightarrow> False
      | Responded errs payload \<Rightarrow>
          errs = [] \<and> (case payload of None \<Rightarrow> False | Some p \<Rightarrow> userErrors p = []))"

definition transientFailure :: "refund_response \<Rightarrow> bool" where
  "transientFailure r =
     (case r of
        CallFailed \<Rightarrow> False
      | Responded errs payload \<Rightarrow>
          errs = [] \<and>
          (case payload of
             None \<Rightarrow> False
           | Some p \<Rightarrow> userErrors p \<noteq> [] \<and> isOrderUnavailableError (userErrors p)))"

definition permanentFailure :: "refund_response \<Rightarrow> bool" where
  "permanentFailure r = (\<not> succeeded r \<and> \<not> transientFailure r)"

definition refundFails :: "shopify \<Rightarrow> bool" where
  "refundFails env =
     (permanentFailure (refundCreate env 0) \<or>
      transientFailure (refundCreate env 0) \<and>
        (permanentFailure (refundCreate env 1) \<or>
         transientFailure (refundCreate env 1) \<and> \<not> succeeded (refundCreate env 2)))"

definition sameTables :: "world \<Rightarrow> world \<Rightarrow> bool" where
  "sameTables w w' =
     (referrers w' = referrers w \<and> codes w' = codes w \<and> referrals w' = referrals w \<and>
      rewards w' = rewards w \<and> appSetting w' = appSetting w \<and> nextId w' = nextId w \<and>
      clock w' = clock w)"


section \<open>Settings update\<close>

text \<open>A partial settings object: an absent field is \<open>undefined\<close>.\<close>

record PartialSettings =
  partial_discountPercentage :: "number option"
  partial_cashbackAmount :: "number option"
  partial_codeValidityDays :: "int option"
  partial_appliesOncePerCustomer :: "bool option"
  partial_maxUsagePerCode :: "int option"
  partial_maxRefundPercentage :: "number option"
  partial_customerSegmentIds :: "string list option"

definition pick :: "'a option \<Rightarrow> 'a \<Rightarrow> 'a" where
  "pick new old = (case new of None \<Rightarrow> old | Some v \<Rightarrow> v)"

definition updateReferralSettings :: "PartialSettings \<Rightarrow> world \<Rightarrow> ReferralSettings \<times> world" where
  "updateReferralSettings partial w =
     (let existing = fst (getReferralSettings w);
          w1 = snd (getReferralSettings w);
          next =
            \<lparr> discountPercentage =
                pick (partial_discountPercentage partial) (discountPercentage existing),
              cashbackAmount = pick (partial_cashbackAmount partial) (cashbackAmount existing),
              codeValidityDays =
                pick (partial_codeValidityDays partial) (codeValidityDays existing),
              appliesOncePerCustomer =
                pick (partial_appliesOncePerCustomer partial) (appliesOncePerCustomer existing),
              maxUsagePerCode = pick (partial_maxUsagePerCode partial) (maxUsagePerCode existing),
              maxRefundPercentage =
                pick (partial_maxRefundPercentage partial) (maxRefundPercentage existing),
              customerSegmentIds =
                pick (partial_customerSegmentIds partial) (customerSegmentIds existing) \<rparr>
      in (next, w1\<lparr>appSetting := Some next\<rparr>))"

section \<open>Creating rows\<close>

text \<open>
  A created row takes the next primary key and the current time. The unique indexes of
  the migrations (customer id of a referrer, code string of a code, order id of a
  referral, referral id of a reward; a null value never collides) make a create fail.
  Foreign keys are not modelled.
\<close>

definition insertReferrer :: "Referrer \<Rightarrow> world \<Rightarrow> (error + Referrer) \<times> world" where
  "insertReferrer r w =
     (if list_ex (\<lambda>x. referrer_shopifyCustomerId x = referrer_shopifyCustomerId r) (referrers w)
      then (Inl UniqueConstraint, w)
      else (Inr r, w\<lparr>referrers := referrers w @ [r], nextId := Suc (nextId w)\<rparr>))"

definition insertCode :: "Code \<Rightarrow> world \<Rightarrow> (error + Code) \<times> world" where
  "insertCode c w =
     (if list_ex (\<lambda>x. code_code x = code_code c) (codes w)
      then (Inl UniqueConstraint, w)
      else (Inr c, w\<lparr>codes := codes w @ [c], nextId := Suc (nextId w)\<rparr>))"

definition insertReferral :: "Referral \<Rightarrow> world \<Rightarrow> (error + Referral) \<times> world" where
  "insertReferral f w =
     (if referral_orderId f \<noteq> None \<and>
         list_ex (\<lambda>x. referral_orderId x = referral_orderId f) (referrals w)
      then (Inl UniqueConstraint, w)
      else (Inr f, w\<lparr>referrals := referrals w @ [f], nextId := Suc (nextId w)\<rparr>))"

definition insertReward :: "Reward \<Rightarrow> world \<Rightarrow> (error + Reward) \<times> world" where
  "insertReward r w =
     (if reward_referralId r \<noteq> None \<and>
         list_ex (\<lambda>x. reward_referralId x = reward_referralId r) (rewards w)
      then (Inl UniqueConstraint, w)
      else (Inr r, w\<lparr>rewards := rewards w @ [r], nextId := Suc (nextId w)\<rparr>))"

text \<open>
  \<open>createPendingReward\<close>: the amount is the cashback amount of the settings passed in;
  the currency defaults to EUR.
\<close>

definition createPendingReward ::
  "ident \<Rightarrow> ident option \<Rightarrow> ReferralSettings \<Rightarrow> string option \<Rightarrow> string option
     \<Rightarrow> string option \<Rightarrow> world \<Rightarrow> (error + Reward) \<times> world" where
  "createPendingReward referrerId referralId settings currency workshopProductId
     workshopProductTitle w =
     insertReward
       \<lparr> reward_id = nextId w, reward_referrerId = referrerId,
         reward_referralId = referralId, reward_amount = cashbackAmount settings,
         reward_currency = pick currency ''EUR'', reward_status = PENDING,
         reward_notes = None, reward_workshopProductId = workshopProductId,
         reward_workshopProductTitle = workshopProductTitle,
         reward_createdAt = clock w, reward_updatedAt = clock w, reward_paidAt = None \<rparr>
       w"

section \<open>Referrer registry\<close>

record ShopifyCustomerPayload =
  customer_id :: string
  customer_email :: "string field"
  customer_first_name :: "string field"
  customer_last_name :: "string field"

definition findReferrerByCustomerId :: "string \<Rightarrow> world \<Rightarrow> Referrer option" where
  "findReferrerByCustomerId cid w =
     find (\<lambda>r. referrer_shopifyCustomerId r = cid) (referrers w)"

definition findReferrer :: "ident \<Rightarrow> world \<Rightarrow> Referrer option" where
  "findReferrer rid w = find (\<lambda>r. referrer_id r = rid) (referrers w)"

text \<open>
  Modelled from the spec: as for the other tables, that an update refreshes \<open>updatedAt\<close>
  comes from the data model of the specification, the schema file being absent. The
  update returns the row it wrote.
\<close>

definition updateReferrer ::
  "ident \<Rightarrow> (Referrer \<Rightarrow> Referrer) \<Rightarrow> world \<Rightarrow> (error + Referrer) \<times> world" where
  "updateReferrer rid f w =
     (case findReferrer rid w of
        None \<Rightarrow> (Inl RecordNotFound, w)
      | Some r \<Rightarrow>
          (Inr ((f r)\<lparr>referrer_updatedAt := clock w\<rparr>),
           w\<lparr>referrers :=
               map (\<lambda>r. if referrer_id r = rid then (f r)\<lparr>referrer_updatedAt := clock w\<rparr> else r)
                 (referrers w)\<rparr>))"

definition needUpdate :: "Referrer \<Rightarrow> ShopifyCustomerPayload \<Rightarrow> bool" where
  "needUpdate existing customer =
     (strictNeq (referrer_email existing) (customer_email customer) \<or>
      strictNeq (referrer_firstName existing) (customer_first_name customer) \<or>
      strictNeq (referrer_lastName existing) (customer_last_name customer))"

definition getOrCreateReferrerFromCustomer ::
  "ShopifyCustomerPayload \<Rightarrow> world \<Rightarrow> (error + Referrer) \<times> world" where
  "getOrCreateReferrerFromCustomer customer w =
     (case findReferrerByCustomerId (customer_id customer) w of
        Some existing \<Rightarrow>
          if needUpdate existing customer
          then updateReferrer (referrer_id existing)
                 (\<lambda>r. r\<lparr>referrer_email := orElse (customer_email customer) (referrer_email existing),
                         referrer_firstName :=
                           orElse (customer_first_name customer) (referrer_firstName existing),
                         referrer_lastName :=
                           orElse (customer_last_name customer) (referrer_lastName existing)\<rparr>)
                 w
          else (Inr existing, w)
      | None \<Rightarrow>
          insertReferrer
            \<lparr> referrer_id = nextId w, referrer_shopifyCustomerId = customer_id customer,
              referrer_email = orElse (customer_email customer) None,
              referrer_firstName = orElse (customer_first_name customer) None,
              referrer_lastName = orElse (customer_last_name customer) None,
              referrer_createdAt = clock w, referrer_updatedAt = clock w \<rparr>
            w)"

section \<open>Code issuer\<close>

definition findCodeByValue :: "string \<Rightarrow> world \<Rightarrow> Code option" where
  "findCodeByValue v w = find (\<lambda>c. code_code c = v) (codes w)"

definition findCodeByOriginOrderId :: "string \<Rightarrow> world \<Rightarrow> Code option" where
  "findCodeByOriginOrderId orderId w =
     find (\<lambda>c. code_originOrderId c = Some orderId) (codes w)"

text \<open>\<open>setUTCDate(getUTCDate() + days)\<close> moves the time by whole days.\<close>

definition addDays :: "timestamp \<Rightarrow> int \<Rightarrow> timestamp" where
  "addDays t days = t + days * 86400000"

definition computeExpiryDate :: "int \<Rightarrow> world \<Rightarrow> timestamp option" where
  "computeExpiryDate days w = (if days \<le> 0 then None else Some (addDays (clock w) days))"

text \<open>
  The uniqueness loop of \<open>createCodeForReferrer\<close>. The random generator is the sequence
  of the codes it will give; after \<open>k\<close> rounds the candidate is the \<open>k\<close>-th of them. The
  loop returns the number of rounds at its exit.
\<close>

function codeLoop :: "(nat \<Rightarrow> string) \<Rightarrow> world \<Rightarrow> nat \<Rightarrow> nat" where
  "codeLoop generateReferralCode w attempts =
     (if attempts < 5 then
        (case findCodeByValue (generateReferralCode attempts) w of
           None \<Rightarrow> attempts
         | Some _ \<Rightarrow> codeLoop generateReferralCode w (attempts + 1))
      else attempts)"
  by pat_completeness auto
termination
  by (relation "measure (\<lambda>(g, w, attempts). 5 - attempts)") auto

declare codeLoop.simps [simp del]

text \<open>
  \<open>createCodeForReferrer\<close>. The e-mail that announces the code is sent after the row is
  created; its failure is swallowed and it touches none of the tables modelled here.
\<close>

definition createCodeForReferrer ::
  "(nat \<Rightarrow> string) \<Rightarrow> ident \<Rightarrow> ReferralSettings \<Rightarrow> string option \<Rightarrow> string option
     \<Rightarrow> string option \<Rightarrow> string option \<Rightarrow> int option \<Rightarrow> world
     \<Rightarrow> (error + Code) \<times> world" where
  "createCodeForReferrer generateReferralCode referrerId settings originOrderGid originOrderId
     workshopProductId workshopProductTitle workshopQuantity w =
     (let attempts = codeLoop generateReferralCode w 0
      in if attempts \<ge> 5 then (Inl CodeGenerationExhausted, w)
         else
           insertCode
             \<lparr> code_id = nextId w, code_code = generateReferralCode attempts,
               code_referrerId = referrerId, code_shopifyDiscountId = None,
               code_usageCount = 0, code_maxUsage = maxUsagePerCode settings,
               code_active = True, code_createdAt = clock w, code_updatedAt = clock w,
               code_expiresAt = computeExpiryDate (codeValidityDays settings) w,
               code_originOrderId = originOrderId, code_originOrderGid = originOrderGid,
               code_workshopProductId = workshopProductId,
               code_workshopProductTitle = workshopProductTitle,
               code_workshopQuantity = pick workshopQuantity 1,
               code_discountSnapshot = Some (discountPercentage settings),
               code_cashbackSnapshot = Some (cashbackAmount settings) \<rparr>
             w)"

definition markCodeAsUsed :: "ident \<Rightarrow> world \<Rightarrow> error + world" where
  "markCodeAsUsed codeId w =
     updateCode codeId (\<lambda>c. c\<lparr>code_usageCount := code_usageCount c + 1\<rparr>) w"

definition linkShopifyDiscountId :: "ident \<Rightarrow> string \<Rightarrow> world \<Rightarrow> error + world" where
  "linkShopifyDiscountId codeId discountId w =
     updateCode codeId (\<lambda>c. c\<lparr>code_shopifyDiscountId := Some discountId\<rparr>) w"

section \<open>Referral recorder\<close>

record ReferralInput =
  input_referrerId :: ident
  input_codeId :: "ident option"
  input_refereeShopifyCustomerId :: "string option"
  input_refereeEmail :: "string option"
  input_refereeFirstName :: "string option"
  input_refereeLastName :: "string option"
  input_orderId :: "string option"
  input_workshopProductId :: "string option"
  input_workshopProductTitle :: "string option"

definition findReferralByOrderId :: "string \<Rightarrow> world \<Rightarrow> Referral option" where
  "findReferralByOrderId orderId w =
     find (\<lambda>f. referral_orderId f = Some orderId) (referrals w)"

text \<open>
  The update half of the upsert: a field of the data that is \<open>undefined\<close> leaves the
  column as it is, every other field overwrites it.
\<close>

definition keep :: "'a option \<Rightarrow> 'a option \<Rightarrow> 'a option" where
  "keep new old = (case new of None \<Rightarrow> old | Some v \<Rightarrow> Some v)"

definition applyReferralData :: "ReferralInput \<Rightarrow> Referral \<Rightarrow> Referral" where
  "applyReferralData input f =
     f\<lparr> referral_referrerId := input_referrerId input,
        referral_codeId := keep (input_codeId input) (referral_codeId f),
        referral_refereeShopifyCustomerId :=
          keep (input_refereeShopifyCustomerId input) (referral_refereeShopifyCustomerId f),
        referral_refereeEmail := keep (input_refereeEmail input) (referral_refereeEmail f),
        referral_refereeFirstName :=
          keep (input_refereeFirstName input) (referral_refereeFirstName f),
        referral_refereeLastName :=
          keep (input_refereeLastName input) (referral_refereeLastName f),
        referral_orderId := keep (input_orderId input) (referral_orderId f),
        referral_workshopProductId :=
          keep (input_workshopProductId input) (referral_workshopProductId f),
        referral_workshopProductTitle :=
          keep (input_workshopProductTitle input) (referral_workshopProductTitle f) \<rparr>"

definition newReferral :: "ReferralInput \<Rightarrow> world \<Rightarrow> Referral" where
  "newReferral input w =
     \<lparr> referral_id = nextId w, referral_referrerId = input_referrerId input,
       referral_codeId = input_codeId input,
       referral_refereeShopifyCustomerId = input_refereeShopifyCustomerId input,
       referral_refereeEmail = input_refereeEmail input,
       referral_refereeFirstName = input_refereeFirstName input,
       referral_refereeLastName = input_refereeLastName input,
       referral_orderId = input_orderId input,
       referral_workshopProductId = input_workshopProductId input,
       referral_workshopProductTitle = input_workshopProductTitle input,
       referral_createdAt = clock w \<rparr>"

text \<open>
  \<open>createReferral\<close>: with a truthy order id an upsert keyed by the order id, whose
  update writes the same data as its create; otherwise a plain create.
\<close>

definition createReferral :: "ReferralInput \<Rightarrow> world \<Rightarrow> (error + Referral) \<times> world" where
  "createReferral input w =
     (if truthyOpt (input_orderId input) then
        (case find (\<lambda>f. referral_orderId f = input_orderId input) (referrals w) of
           Some existing \<Rightarrow>
             (Inr (applyReferralData input existing),
              w\<lparr>referrals :=
                  map (\<lambda>f. if referral_orderId f = input_orderId input
                            then applyReferralData input f else f)
                    (referrals w)\<rparr>)
         | None \<Rightarrow> insertReferral (newReferral input w) w)
      else insertReferral (newReferral input w) w)"

section \<open>Purchase event handler\<close>

text \<open>
  The payload of a paid-order notification after \<open>JSON.parse\<close>. Identifiers that the
  platform sends as numbers are kept as the strings \<open>String\<close> gives; the falsy
  identifiers (a missing one, 0, the empty string) are the empty string or \<open>None\<close>.
\<close>

record ShopifyOrderPaidPayload =
  payload_id :: "string option"
  payload_admin_graphql_api_id :: "string option"
  payload_email :: "string field"
  payload_currency :: "string option"
  payload_discount_codes :: "string option list"
  payload_customer :: "ShopifyCustomerPayload option"

text \<open>
  A line item of the order details. An identifier is a field whose value is the string
  of a number; 0 is falsy.
\<close>

record line_item =
  item_product_id :: "string field"
  item_variant_id :: "string field"
  item_title :: "string field"
  item_name :: "string field"
  item_quantity :: "int option"

datatype order_details = OrderFetchFailed | OrderDetails "line_item list"

text \<open>
  What one run of the handler gets from outside: the order details, the codes the
  random generator will give, and the outcome of the discount synchronisation (the
  discount id and the code string, or null when it failed).
\<close>

record event_env =
  fetchOrderById :: order_details
  generateReferralCode :: "nat \<Rightarrow> string"
  recreateShopifyDiscount :: "(string \<times> string) option"

fun idTruthy :: "string field \<Rightarrow> bool" where
  "idTruthy (Val s) = (s \<noteq> [] \<and> s \<noteq> ''0'')"
| "idTruthy Null = False"
| "idTruthy Undefined = False"

fun fieldTruthy :: "string field \<Rightarrow> bool" where
  "fieldTruthy (Val s) = (s \<noteq> [])"
| "fieldTruthy Null = False"
| "fieldTruthy Undefined = False"

fun toString :: "string field \<Rightarrow> string" where
  "toString (Val s) = s"
| "toString Null = ''null''"
| "toString Undefined = ''undefined''"

text \<open>\<open>String(item.product_id || item.variant_id)\<close>\<close>

definition itemProductId :: "line_item \<Rightarrow> string" where
  "itemProductId item =
     toString (if idTruthy (item_product_id item) then item_product_id item
               else item_variant_id item)"

text \<open>\<open>item.quantity || 1\<close>\<close>

definition itemQuantity :: "line_item \<Rightarrow> int" where
  "itemQuantity item =
     (case item_quantity item of None \<Rightarrow> 1 | Some q \<Rightarrow> if q = 0 then 1 else q)"

text \<open>
  The primary product of the order: the first line item gives the product id and the
  title, the quantity is summed over the line items of that product. A failed fetch or
  an order without line items gives no product and the quantity 1.
\<close>

record workshop =
  workshopProductId :: "string option"
  workshopProductTitle :: "string option"
  workshopQuantity :: int

definition primaryProduct :: "order_details \<Rightarrow> workshop" where
  "primaryProduct details =
     (case details of
        OrderFetchFailed \<Rightarrow>
          \<lparr> workshopProductId = None, workshopProductTitle = None, workshopQuantity = 1 \<rparr>
      | OrderDetails [] \<Rightarrow>
          \<lparr> workshopProductId = None, workshopProductTitle = None, workshopQuantity = 1 \<rparr>
      | OrderDetails (firstItem # rest) \<Rightarrow>
          \<lparr> workshopProductId = Some (itemProductId firstItem),
            workshopProductTitle =
              orElse (if fieldTruthy (item_title firstItem) then item_title firstItem
                      else item_name firstItem) None,
            workshopQuantity =
              sum_list (map itemQuantity
                (filter (\<lambda>item. itemProductId item = itemProductId firstItem)
                   (firstItem # rest))) \<rparr>)"

text \<open>
  \<open>normalizeCode\<close>: the trimmed code, null when the code is absent or blank. The
  white space trimmed is that of ASCII.
\<close>

definition isSpace :: "char \<Rightarrow> bool" where
  "isSpace c = (c \<in> set [CHR '' '', CHR 0x09, CHR 0x0A, CHR 0x0B, CHR 0x0C, CHR 0x0D])"

definition trim :: "string \<Rightarrow> string" where
  "trim s = rev (dropWhile isSpace (rev (dropWhile isSpace s)))"

definition normalizeCode :: "string option \<Rightarrow> string option" where
  "normalizeCode code =
     (case code of
        None \<Rightarrow> None
      | Some c \<Rightarrow> if c = [] then None else if trim c = [] then None else Some (trim c))"

text \<open>
  The most recent code of a referrer: \<open>findFirst\<close> ordered by creation time,
  descending; among codes created at the same time the earliest row is taken.
\<close>

fun latestCode :: "Code list \<Rightarrow> Code option" where
  "latestCode [] = None"
| "latestCode (c # cs) =
     (case latestCode cs of
        None \<Rightarrow> Some c
      | Some d \<Rightarrow> if code_createdAt c < code_createdAt d then Some d else Some c)"

text \<open>
  The code the event works on: the code already attached to this order id, else the
  most recent code of the referrer.
\<close>

definition selectCode :: "string \<Rightarrow> ident \<Rightarrow> world \<Rightarrow> Code option" where
  "selectCode orderId referrerId w =
     (case findCodeByOriginOrderId orderId w of
        Some c \<Rightarrow> Some c
      | None \<Rightarrow> latestCode (filter (\<lambda>c. code_referrerId c = referrerId) (codes w)))"

text \<open>
  The refresh of an existing code: what the update writes is computed from the code as
  it was read.
\<close>

definition refreshCode ::
  "Code \<Rightarrow> string \<Rightarrow> string option \<Rightarrow> workshop \<Rightarrow> ReferralSettings \<Rightarrow> timestamp
     \<Rightarrow> Code \<Rightarrow> Code" where
  "refreshCode codeRecord orderId gid product settings now c =
     c\<lparr> code_originOrderId := Some orderId,
        code_originOrderGid := keep gid (code_originOrderGid codeRecord),
        code_workshopProductId :=
          keep (workshopProductId product) (code_workshopProductId codeRecord),
        code_workshopProductTitle :=
          keep (workshopProductTitle product) (code_workshopProductTitle codeRecord),
        code_workshopQuantity := workshopQuantity product,
        code_expiresAt :=
          (if codeValidityDays settings > 0
           then Some (addDays now (codeValidityDays settings)) else None),
        code_maxUsage := maxUsagePerCode settings,
        code_discountSnapshot := Some (discountPercentage settings),
        code_cashbackSnapshot := Some (cashbackAmount settings) \<rparr>"

text \<open>The discount id returned by the synchronisation is linked to the code.\<close>

definition linkDiscount :: "event_env \<Rightarrow> ident \<Rightarrow> world \<Rightarrow> error + world" where
  "linkDiscount env codeId w =
     (case recreateShopifyDiscount env of
        None \<Rightarrow> Inr w
      | Some (discountId, createdCode) \<Rightarrow> linkShopifyDiscountId codeId discountId w)"

text \<open>Issue a code for the referrer of the event, or refresh the selected one.\<close>

definition issueOrRefreshCode ::
  "event_env \<Rightarrow> ShopifyOrderPaidPayload \<Rightarrow> string \<Rightarrow> ReferralSettings \<Rightarrow> workshop
     \<Rightarrow> Referrer \<Rightarrow> world \<Rightarrow> (error + unit) \<times> world" where
  "issueOrRefreshCode env payload orderId settings product referrer w =
     (case selectCode orderId (referrer_id referrer) w of
        None \<Rightarrow>
          (case createCodeForReferrer (generateReferralCode env) (referrer_id referrer) settings
                  (payload_admin_graphql_api_id payload) (Some orderId)
                  (workshopProductId product) (workshopProductTitle product)
                  (Some (workshopQuantity product)) w of
             (Inl e, w1) \<Rightarrow> (Inl e, w1)
           | (Inr codeRecord, w1) \<Rightarrow>
               (case linkDiscount env (code_id codeRecord) w1 of
                  Inl e \<Rightarrow> (Inl e, w1)
                | Inr w2 \<Rightarrow> (Inr (), w2)))
      | Some codeRecord \<Rightarrow>
          (case updateCode (code_id codeRecord)
                  (refreshCode codeRecord orderId (payload_admin_graphql_api_id payload)
                     product settings (clock w)) w of
             Inl e \<Rightarrow> (Inl e, w)
           | Inr w1 \<Rightarrow>
               (case linkDiscount env (code_id codeRecord) w1 of
                  Inl e \<Rightarrow> (Inl e, w1)
                | Inr w2 \<Rightarrow> (Inr (), w2))))"

text \<open>
  The attribution of a referred purchase: the used code is looked up, an existing
  referral for the order ends the event, otherwise the referral and the pending reward
  are created and the usage of the code is counted.
\<close>

definition recordReferredPurchase ::
  "ShopifyOrderPaidPayload \<Rightarrow> ShopifyCustomerPayload \<Rightarrow> string \<Rightarrow> ReferralSettings
     \<Rightarrow> workshop \<Rightarrow> world \<Rightarrow> (error + unit) \<times> world" where
  "recordReferredPurchase payload customer orderId settings product w =
     (case normalizeCode (case payload_discount_codes payload of [] \<Rightarrow> None | c # _ \<Rightarrow> c) of
        None \<Rightarrow> (Inr (), w)
      | Some usedDiscount \<Rightarrow>
          (case findCodeByValue usedDiscount w of
             None \<Rightarrow> (Inr (), w)
           | Some usedCodeRecord \<Rightarrow>
               (case findReferralByOrderId orderId w of
                  Some existingReferral \<Rightarrow> (Inr (), w)
                | None \<Rightarrow>
                    (case createReferral
                            \<lparr> input_referrerId = code_referrerId usedCodeRecord,
                              input_codeId = Some (code_id usedCodeRecord),
                              input_refereeShopifyCustomerId = Some (customer_id customer),
                              input_refereeEmail =
                                orElse (payload_email payload)
                                  (orElse (customer_email customer) None),
                              input_refereeFirstName =
                                orElse (customer_first_name customer) None,
                              input_refereeLastName =
                                orElse (customer_last_name customer) None,
                              input_orderId = Some orderId,
                              input_workshopProductId = workshopProductId product,
                              input_workshopProductTitle = workshopProductTitle product \<rparr>
                            w of
                       (Inl e, w1) \<Rightarrow> (Inl e, w1)
                     | (Inr referral, w1) \<Rightarrow>
                         (case createPendingReward (code_referrerId usedCodeRecord)
                                 (Some (referral_id referral)) settings
                                 (Some (pick (payload_currency payload) ''EUR''))
                                 (workshopProductId product) (workshopProductTitle product)
                                 w1 of
                            (Inl e, w2) \<Rightarrow> (Inl e, w2)
                          | (Inr reward, w2) \<Rightarrow>
                              (case markCodeAsUsed (code_id usedCodeRecord) w2 of
                                 Inl e \<Rightarrow> (Inl e, w2)
                               | Inr w3 \<Rightarrow> (Inr (), w3)))))))"

text \<open>The body of the \<open>try\<close> block of the handler.\<close>

definition processOrderPaid ::
  "event_env \<Rightarrow> ShopifyOrderPaidPayload \<Rightarrow> ShopifyCustomerPayload \<Rightarrow> string \<Rightarrow> world
     \<Rightarrow> (error + unit) \<times> world" where
  "processOrderPaid env payload customer orderId w =
     (let settings = fst (getReferralSettings w);
          w1 = snd (getReferralSettings w);
          product = primaryProduct (fetchOrderById env)
      in case getOrCreateReferrerFromCustomer customer w1 of
           (Inl e, w2) \<Rightarrow> (Inl e, w2)
         | (Inr referrer, w2) \<Rightarrow>
             (case issueOrRefreshCode env payload orderId settings product referrer w2 of
                (Inl e, w3) \<Rightarrow> (Inl e, w3)
              | (Inr _, w3) \<Rightarrow>
                  recordReferredPurchase payload customer orderId settings product w3))"

text \<open>
  The handler: a payload that cannot be parsed (\<open>None\<close>) or lacks the order id or the
  customer id is acknowledged and ignored; every error of the body is caught and
  logged; the answer is always 200.
\<close>

definition respondOk :: nat where
  "respondOk = 200"

definition action ::
  "event_env \<Rightarrow> ShopifyOrderPaidPayload option \<Rightarrow> world \<Rightarrow> nat \<times> world" where
  "action env parsed w =
     (case parsed of
        None \<Rightarrow> (respondOk, w)
      | Some payload \<Rightarrow>
          (case payload_id payload of
             None \<Rightarrow> (respondOk, w)
           | Some orderId \<Rightarrow>
               (case payload_customer payload of
                  None \<Rightarrow> (respondOk, w)
                | Some customer \<Rightarrow>
                    if \<not> truthy orderId \<or> \<not> truthy (customer_id customer)
                    then (respondOk, w)
                    else (respondOk, snd (processOrderPaid env payload customer orderId w)))))"





definition codeTerms ::
  "Code \<Rightarrow> (ident \<times> string \<times> ident) \<times> (int \<times> timestamp option \<times> number option \<times> number option)
     \<times> (string option \<times> string option \<times> string option \<times> string option \<times> int)" where
  "codeTerms c =
     ((code_id c, code_code c, code_referrerId c),
      (code_maxUsage c, code_expiresAt c, code_discountSnapshot c, code_cashbackSnapshot c),
      (code_originOrderId c, code_originOrderGid c, code_workshopProductId c,
       code_workshopProductTitle c, code_workshopQuantity c))"


section \<open>Sample data\<close>

text \<open>
  Rows with every optional column empty, and a store for the settlement scenarios: one
  code whose origin order is \<open>gid://shopify/Order/7\<close>, three referrals of that code,
  a reward of 30 paid at time 1000, pending rewards of 25 and of 20, and a reward of 15
  marked failed; at most half of an order may be refunded.
\<close>

definition sampleCode :: "ident \<Rightarrow> string \<Rightarrow> ident \<Rightarrow> string option \<Rightarrow> Code" where
  "sampleCode i c r g =
     \<lparr> code_id = i, code_code = c, code_referrerId = r, code_shopifyDiscountId = None,
       code_usageCount = 0, code_maxUsage = 0, code_active = True, code_createdAt = 0,
       code_updatedAt = 0, code_expiresAt = None, code_originOrderId = None,
       code_originOrderGid = g, code_workshopProductId = None,
       code_workshopProductTitle = None, code_workshopQuantity = 1,
       code_discountSnapshot = None, code_cashbackSnapshot = None \<rparr>"

definition sampleReferral :: "ident \<Rightarrow> ident \<Rightarrow> ident option \<Rightarrow> string option \<Rightarrow> Referral" where
  "sampleReferral i r c oid =
     \<lparr> referral_id = i, referral_referrerId = r, referral_codeId = c,
       referral_refereeShopifyCustomerId = None, referral_refereeEmail = None,
       referral_refereeFirstName = None, referral_refereeLastName = None,
       referral_orderId = oid, referral_workshopProductId = None,
       referral_workshopProductTitle = None, referral_createdAt = 0 \<rparr>"

definition sampleReward :: "ident \<Rightarrow> ident \<Rightarrow> ident option \<Rightarrow> number \<Rightarrow> RewardStatus \<Rightarrow> Reward" where
  "sampleReward i r f a s =
     \<lparr> reward_id = i, reward_referrerId = r, reward_referralId = f, reward_amount = a,
       reward_currency = ''EUR'', reward_status = s, reward_notes = None,
       reward_workshopProductId = None, reward_workshopProductTitle = None,
       reward_createdAt = 0, reward_updatedAt = 0, reward_paidAt = None \<rparr>"

definition ledgerWorld :: world where
  "ledgerWorld =
     \<lparr> referrers = [],
       codes = [sampleCode 1 ''ABC-1234'' 1 (Some ''gid://shopify/Order/7'')],
       referrals = [sampleReferral 10 1 (Some 1) (Some ''100''),
                    sampleReferral 11 1 (Some 1) (Some ''101''),
                    sampleReferral 12 1 (Some 1) (Some ''102''),
                    sampleReferral 13 1 (Some 1) (Some ''103'')],
       rewards = [(sampleReward 20 1 (Some 10) 30 PAID)\<lparr>reward_paidAt := Some 1000\<rparr>,
                  sampleReward 21 1 (Some 11) 25 PENDING,
                  sampleReward 22 1 (Some 12) 20 PENDING,
                  sampleReward 23 1 (Some 13) 15 FAILED],
       appSetting = Some (DEFAULT_SETTINGS\<lparr>maxRefundPercentage := 1 / 2\<rparr>),
       nextId = 100, clock = 5000,
       outbox = [], sleeps = [], warnings = [], cashbackEmails = [] \<rparr>"

text \<open>
  The same store with amounts in cents: 1.10 paid and a pending reward of 2.20, each the
  double nearest to the decimal.
\<close>

definition centsWorld :: world where
  "centsWorld =
     \<lparr> referrers = [],
       codes = [sampleCode 1 ''ABC-1234'' 1 (Some ''gid://shopify/Order/7'')],
       referrals = [sampleReferral 10 1 (Some 1) (Some ''100''),
                    sampleReferral 11 1 (Some 1) (Some ''101'')],
       rewards = [(sampleReward 30 1 (Some 10) (roundDouble (11 / 10)) PAID)
                    \<lparr>reward_paidAt := Some 1000\<rparr>,
                  sampleReward 31 1 (Some 11) (roundDouble (22 / 10)) PENDING],
       appSetting = Some (DEFAULT_SETTINGS\<lparr>maxRefundPercentage := 1 / 2\<rparr>),
       nextId = 100, clock = 5000,
       outbox = [], sleeps = [], warnings = [], cashbackEmails = [] \<rparr>"

text \<open>
  A platform that answers every refund request with success, for an order of the given
  total and with the given transaction list.
\<close>

definition acceptingShop :: "total_response \<Rightarrow> transactions_response \<Rightarrow> shopify" where
  "acceptingShop tot txs =
     \<lparr> orderTransactions = (\<lambda>g. txs), orderTotal = (\<lambda>g. tot),
       refundCreate = (\<lambda>n. Responded [] (Some \<lparr>userErrors = [], refund = Some ''refund-1''\<rparr>)),
       SHOPIFY_REFUND_GATEWAY = None \<rparr>"

definition saleTransactions :: transactions_response where
  "saleTransactions =
     Transactions [Some \<lparr>tx_id = Some ''tx-1'', tx_kind = Some ''SALE'',
                          tx_status = Some ''SUCCESS''\<rparr>]"

text \<open>A platform whose every answer is the retryable user error.\<close>

definition busyShop :: shopify where
  "busyShop =
     \<lparr> orderTransactions = (\<lambda>g. saleTransactions), orderTotal = (\<lambda>g. TotalAmount 100),
       refundCreate =
         (\<lambda>n. Responded []
                 (Some \<lparr>userErrors = [Some ''Order is temporarily unavailable''],
                        refund = None\<rparr>)),
       SHOPIFY_REFUND_GATEWAY = None \<rparr>"

text \<open>An order whose only transaction is an authorization.\<close>

definition authorizationOnly :: transactions_response where
  "authorizationOnly =
     Transactions [Some \<lparr>tx_id = Some ''tx-9'', tx_kind = Some ''AUTHORIZATION'',
                          tx_status = Some ''SUCCESS''\<rparr>]"

text \<open>
  A store with one referrer, known to the platform as customer 501, and her code; the
  cashback amount of the settings is 20.
\<close>

definition sampleReferrer :: "ident \<Rightarrow> string \<Rightarrow> string option \<Rightarrow> Referrer" where
  "sampleReferrer i cid mail =
     \<lparr> referrer_id = i, referrer_shopifyCustomerId = cid, referrer_email = mail,
       referrer_firstName = Some ''Ada'', referrer_lastName = Some ''Rossi'',
       referrer_createdAt = 0, referrer_updatedAt = 0 \<rparr>"

definition sampleCustomer :: "string \<Rightarrow> string field \<Rightarrow> ShopifyCustomerPayload" where
  "sampleCustomer cid mail =
     \<lparr> customer_id = cid, customer_email = mail, customer_first_name = Val ''Ada'',
       customer_last_name = Val ''Rossi'' \<rparr>"

definition registryWorld :: world where
  "registryWorld =
     \<lparr> referrers = [sampleReferrer 1 ''501'' (Some ''old@example.com'')],
       codes = [(sampleCode 2 ''ABC-1234'' 1 (Some ''gid://shopify/Order/7''))
                  \<lparr>code_originOrderId := Some ''7'',
                   code_workshopProductId := Some ''900'',
                   code_workshopProductTitle := Some ''Atelier portrait'',
                   code_cashbackSnapshot := Some 20,
                   code_discountSnapshot := Some (1 / 10)\<rparr>],
       referrals = [], rewards = [],
       appSetting = Some DEFAULT_SETTINGS,
       nextId = 100, clock = 5000,
       outbox = [], sleeps = [], warnings = [], cashbackEmails = [] \<rparr>"

definition noChange :: PartialSettings where
  "noChange =
     \<lparr> partial_discountPercentage = None, partial_cashbackAmount = None,
       partial_codeValidityDays = None, partial_appliesOncePerCustomer = None,
       partial_maxUsagePerCode = None, partial_maxRefundPercentage = None,
       partial_customerSegmentIds = None \<rparr>"

text \<open>
  Events: customer 501, the referrer of code \<open>ABC-1234\<close>, buys again (order 9, a
  landscape workshop, twice); customer 502 buys with that code (order 8).
\<close>

definition landscapeOrder :: order_details where
  "landscapeOrder =
     OrderDetails
       [\<lparr> item_product_id = Val ''901'', item_variant_id = Val ''9010'',
           item_title = Val ''Atelier paysage'', item_name = Undefined,
           item_quantity = Some 2 \<rparr>]"

definition quietEnv :: "order_details \<Rightarrow> string \<Rightarrow> event_env" where
  "quietEnv details newCode =
     \<lparr> fetchOrderById = details, generateReferralCode = (\<lambda>n. newCode),
       recreateShopifyDiscount = None \<rparr>"

definition repeatPurchase :: ShopifyOrderPaidPayload where
  "repeatPurchase =
     \<lparr> payload_id = Some ''9'',
       payload_admin_graphql_api_id = Some ''gid://shopify/Order/9'',
       payload_email = Val ''old@example.com'', payload_currency = Some ''EUR'',
       payload_discount_codes = [],
       payload_customer = Some (sampleCustomer ''501'' (Val ''old@example.com'')) \<rparr>"



section \<open>Facts about the refund loop and the settlement\<close>

lemma sameTables_refl: "sameTables w w"
  by (simp add: sameTables_def)

lemma refundLoop_tables:
  "refundLoop env v a w = (res, w') \<Longrightarrow> sameTables w w'"
proof (induction env v a w rule: refundLoop.induct)
  case (1 env variables attempt w)
  show ?case
    using "1.prems" "1.IH"
    by (subst (asm) refundLoop.simps)
       (auto simp: sameTables_def split: if_splits refund_response.splits option.splits)
qed

lemma refundLoop_outbox:
  "refundLoop env v a w = (res, w') \<Longrightarrow>
   \<exists>n. outbox w' = outbox w @ replicate n v \<and> n \<le> maxRetries - a \<and>
       (a < maxRetries \<longrightarrow> 0 < n) \<and>
       (\<forall>i. a \<le> i \<and> Suc i < a + n \<longrightarrow> transientFailure (refundCreate env i))"
proof (induction env v a w arbitrary: res w' rule: refundLoop.induct)
  case (1 env variables attempt w)
  show ?case
  proof (cases "attempt < maxRetries")
    case False
    with "1.prems" show ?thesis
      by (subst (asm) refundLoop.simps) (auto intro: exI[of _ 0])
  next
    case lt: True
    show ?thesis
    proof (cases "transientFailure (refundCreate env attempt) \<and> attempt < maxRetries - 1")
      case False
      with lt "1.prems" have "outbox w' = outbox w @ replicate 1 variables"
        by (subst (asm) refundLoop.simps)
           (auto simp: transientFailure_def split: if_splits refund_response.splits option.splits)
      with lt show ?thesis
        by (intro exI[of _ 1]) auto
    next
      case True
      then obtain p where resp: "refundCreate env attempt = Responded [] (Some p)"
        and ue: "userErrors p \<noteq> []" "isOrderUnavailableError (userErrors p)"
        by (auto simp: transientFailure_def split: refund_response.splits option.splits)
      let ?w1 = "w\<lparr>outbox := outbox w @ [variables],
                    sleeps := sleeps w @ [retryDelay * (attempt + 1)]\<rparr>"
      from True lt resp ue "1.prems"
      have rec: "refundLoop env variables (attempt + 1) ?w1 = (res, w')"
        by (subst (asm) refundLoop.simps) simp
      from "1.IH"[OF lt resp _ _ _ _ rec] True ue
      obtain n where n: "outbox w' = outbox ?w1 @ replicate n variables"
        "n \<le> maxRetries - (attempt + 1)"
        "\<forall>i. attempt + 1 \<le> i \<and> Suc i < attempt + 1 + n \<longrightarrow> transientFailure (refundCreate env i)"
        by auto
      have "\<forall>i. attempt \<le> i \<and> Suc i < attempt + Suc n \<longrightarrow> transientFailure (refundCreate env i)"
      proof (intro allI impI)
        fix i assume i: "attempt \<le> i \<and> Suc i < attempt + Suc n"
        show "transientFailure (refundCreate env i)"
        proof (cases "i = attempt")
          case True with \<open>transientFailure (refundCreate env attempt) \<and> attempt < maxRetries - 1\<close>
          show ?thesis by simp
        next
          case False with i n(3) show ?thesis by auto
        qed
      qed
      with n lt show ?thesis
        by (intro exI[of _ "Suc n"]) (auto simp: replicate_app_Cons_same)
    qed
  qed
qed


lemma refundLoop_fails:
  assumes "refundFails env"
  shows "\<exists>e. fst (refundLoop env v 0 w) = Inl e"
  using assms
  unfolding refundFails_def permanentFailure_def transientFailure_def succeeded_def
  by (subst refundLoop.simps, subst refundLoop.simps, subst refundLoop.simps)
     (auto simp: maxRetries_def eval_nat_numeral split: refund_response.splits option.splits)

lemma refundLoop_succeeds_at_once:
  assumes "refundCreate env 0 = Responded [] (Some p)" and "userErrors p = []"
  shows "refundLoop env v 0 w = (Inr (refund p), w\<lparr>outbox := outbox w @ [v]\<rparr>)"
  using assms by (subst refundLoop.simps) (simp add: maxRetries_def)

lemma createReferralRefund_tables:
  "createReferralRefund env g a cur note w = (res, w') \<Longrightarrow> sameTables w w'"
  unfolding createReferralRefund_def Let_def
  by (auto split: option.splits dest!: refundLoop_tables simp: sameTables_def)

lemma createReferralRefund_fails:
  "refundFails env \<Longrightarrow> \<exists>e. fst (createReferralRefund env g a cur note w) = Inl e"
  unfolding createReferralRefund_def Let_def
  by (auto split: option.splits intro: refundLoop_fails)

lemma find_map_same_key:
  assumes "\<And>x. key (g x) = key x"
  shows "find (\<lambda>x. key x = k) (map (\<lambda>x. if key x = k then g x else x) xs) =
         map_option g (find (\<lambda>x. key x = k) xs)"
  by (induction xs) (auto simp: assms)

lemma markRewardAsPaid_find:
  assumes "markRewardAsPaid rid w = Inr w'"
  shows "\<exists>r. findReward rid w = Some r \<and>
             findReward rid w' =
               Some (r\<lparr>reward_status := PAID, reward_paidAt := Some (clock w),
                       reward_updatedAt := clock w\<rparr>)"
proof -
  from assms obtain r where r: "findReward rid w = Some r"
    by (auto simp: markRewardAsPaid_def updateReward_def split: option.splits)
  with assms have w': "w' = w\<lparr>rewards :=
      map (\<lambda>r. if reward_id r = rid
                then (r\<lparr>reward_status := PAID, reward_paidAt := Some (clock w)\<rparr>)
                       \<lparr>reward_updatedAt := clock w\<rparr>
                else r) (rewards w)\<rparr>"
    by (auto simp: markRewardAsPaid_def updateReward_def)
  have "findReward rid w' =
        map_option (\<lambda>r. (r\<lparr>reward_status := PAID, reward_paidAt := Some (clock w)\<rparr>)
                          \<lparr>reward_updatedAt := clock w\<rparr>) (findReward rid w)"
    unfolding findReward_def w' by (simp add: find_map_same_key[where key = reward_id])
  with r show ?thesis by simp
qed

lemma settleAgainst_failure_tables:
  assumes "settleAgainst env reward g w = (Inl e, w')"
  shows "rewards w' = rewards w \<and> referrals w' = referrals w \<and> codes w' = codes w"
  using assms
  unfolding settleAgainst_def Let_def getReferralSettings_def
  by (auto split: option.splits prod.splits sum.splits if_splits
           dest!: createReferralRefund_tables simp: sameTables_def)

lemma settleAgainst_success_paid:
  assumes "settleAgainst env reward g w = (Inr res, w')"
  shows "\<exists>r. findReward (reward_id reward) w' = Some r \<and> reward_status r = PAID"
  using assms
  unfolding settleAgainst_def Let_def
  by (auto split: option.splits prod.splits sum.splits if_splits
           dest!: markRewardAsPaid_find
           simp: sendCashbackConfirmationEmail_def findReward_def)

lemma backfillOrigin_rewards:
  "backfillOrigin ov code w = Inr w1 \<Longrightarrow>
   rewards w1 = rewards w \<and> referrals w1 = referrals w \<and> outbox w1 = outbox w \<and>
   appSetting w1 = appSetting w"
  by (auto simp: backfillOrigin_def updateCode_def split: option.splits if_splits)

lemma find_key: "find (\<lambda>x. key x = k) xs = Some x \<Longrightarrow> key x = k"
  by (induction xs) (auto split: if_splits)

lemma processRewardRefund_success_paid:
  assumes "processRewardRefund env rid ov w = (Inr res, w')"
  shows "\<exists>r. findReward rid w' = Some r \<and> reward_status r = PAID"
proof -
  from assms obtain reward g w1 where
      r: "findReward rid w = Some reward"
    and s: "settleAgainst env reward g w1 = (Inr res, w')"
    by (auto simp: processRewardRefund_def split: option.splits if_splits sum.splits)
  from r have "reward_id reward = rid"
    unfolding findReward_def by (rule find_key)
  with settleAgainst_success_paid[OF s] show ?thesis by simp
qed

lemma processRewardRefund_not_pending:
  assumes "findReward rid w = Some r" and "reward_status r \<noteq> PENDING"
  shows "processRewardRefund env rid ov w = (Inl NotPending, w)"
  using assms by (simp add: processRewardRefund_def)

lemma processRewardRefund_failure_rewards:
  assumes "processRewardRefund env rid ov w = (Inl e, w')"
  shows "rewards w' = rewards w"
  using assms
  by (auto simp: processRewardRefund_def
           split: option.splits if_splits sum.splits
           dest!: settleAgainst_failure_tables backfillOrigin_rewards)

lemma settleAgainst_refund_fails:
  assumes "refundFails env"
  shows "\<exists>e. fst (settleAgainst env reward g w) = Inl e"
proof -
  obtain e where
    "fst (createReferralRefund env g (reward_amount reward) (reward_currency reward)
            (Some REFUND_NOTE) (snd (getReferralSettings w))) = Inl e"
    using createReferralRefund_fails[OF assms] by blast
  then show ?thesis
    unfolding settleAgainst_def Let_def
    by (auto split: option.splits prod.splits sum.splits)
qed

lemma processRewardRefund_refund_fails:
  assumes "refundFails env"
  shows "\<exists>e. fst (processRewardRefund env rid ov w) = Inl e"
  using settleAgainst_refund_fails[OF assms]
  by (auto simp: processRewardRefund_def split: option.splits sum.splits)

lemma createReferralRefund_outbox:
  assumes "createReferralRefund env g a cur note w = (res, w')"
  shows "\<exists>n v. outbox w' = outbox w @ replicate n v \<and> 0 < n \<and> n \<le> maxRetries \<and>
               refund_orderId v = g \<and> refund_amount v = a \<and>
               (\<forall>i. Suc i < n \<longrightarrow> transientFailure (refundCreate env i))"
proof -
  from assms obtain v w0 where
    loop: "refundLoop env v 0 w0 = (res, w')" and w0: "outbox w0 = outbox w"
    and v: "refund_orderId v = g" "refund_amount v = a"
    unfolding createReferralRefund_def Let_def
    by (auto split: option.splits if_splits)
  from refundLoop_outbox[OF loop] w0 v show ?thesis
    by (auto simp: maxRetries_def)
qed

lemma settleAgainst_outbox:
  assumes "settleAgainst env reward g w = (res, w')"
  shows "\<exists>n v. outbox w' = outbox w @ replicate n v \<and> n \<le> maxRetries \<and>
               (\<forall>i. Suc i < n \<longrightarrow> transientFailure (refundCreate env i))"
proof -
  let ?w1 = "snd (getReferralSettings w)"
  have w1: "outbox ?w1 = outbox w"
    by (simp add: getReferralSettings_def split: option.splits)
  obtain r2 w2 where c: "createReferralRefund env g (reward_amount reward)
      (reward_currency reward) (Some REFUND_NOTE) ?w1 = (r2, w2)"
    by (cases "createReferralRefund env g (reward_amount reward)
      (reward_currency reward) (Some REFUND_NOTE) ?w1") blast
  from createReferralRefund_outbox[OF c] w1
  obtain n v where nv: "outbox w2 = outbox w @ replicate n v" "n \<le> maxRetries"
     "\<forall>i. Suc i < n \<longrightarrow> transientFailure (refundCreate env i)" by auto
  have "outbox w' = outbox w \<or> outbox w' = outbox w2"
    using assms c w1
    unfolding settleAgainst_def Let_def
    by (auto split: option.splits sum.splits if_splits
             simp: markRewardAsPaid_def updateReward_def sendCashbackConfirmationEmail_def)
  then show ?thesis
  proof
    assume "outbox w' = outbox w"
    then show ?thesis by (intro exI[of _ 0]) simp
  next
    assume "outbox w' = outbox w2"
    with nv show ?thesis by auto
  qed
qed

lemma processRewardRefund_outbox:
  "\<exists>n v. outbox (snd (processRewardRefund env rid ov w)) = outbox w @ replicate n v \<and>
         n \<le> maxRetries \<and> (\<forall>i. Suc i < n \<longrightarrow> transientFailure (refundCreate env i))"
proof -
  have triv: "\<exists>n v. outbox w = outbox w @ replicate n v \<and>
         n \<le> maxRetries \<and> (\<forall>i. Suc i < n \<longrightarrow> transientFailure (refundCreate env i))"
    by (intro exI[of _ 0]) simp
  show ?thesis
  proof (cases "\<exists>reward g w1. backfillOrigin ov (rewardCode w reward) w = Inr w1 \<and>
      processRewardRefund env rid ov w = settleAgainst env reward g w1")
    case True
    then obtain reward g w1 where bf: "backfillOrigin ov (rewardCode w reward) w = Inr w1"
      and eq: "processRewardRefund env rid ov w = settleAgainst env reward g w1" by blast
    from backfillOrigin_rewards[OF bf] have "outbox w1 = outbox w" by simp
    with settleAgainst_outbox[of env reward g w1 "fst (settleAgainst env reward g w1)"
           "snd (settleAgainst env reward g w1)"] eq
    show ?thesis by simp
  next
    case False
    then have "snd (processRewardRefund env rid ov w) = w"
      unfolding processRewardRefund_def
      by (auto split: option.splits sum.splits) blast
    with triv show ?thesis by simp
  qed
qed


lemma refundLoop_error_kind:
  "refundLoop env v a w = (Inl (RefundLimitReached left cur), w') \<Longrightarrow> False"
proof (induction env v a w rule: refundLoop.induct)
  case (1 env variables attempt w)
  show ?case
    using "1.prems" "1.IH"
    by (subst (asm) refundLoop.simps)
       (auto split: if_splits refund_response.splits option.splits)
qed

lemma createReferralRefund_error_kind:
  "createReferralRefund env g a cur note w = (Inl (RefundLimitReached left c), w') \<Longrightarrow> False"
  unfolding createReferralRefund_def Let_def
  by (auto split: option.splits if_splits dest: refundLoop_error_kind)

lemma createReferralRefund_succeeds_at_once:
  assumes "succeeded (refundCreate env 0)"
  shows "\<exists>x w'. createReferralRefund env g a cur note w = (Inr x, w')"
proof -
  from assms obtain p where "refundCreate env 0 = Responded [] (Some p)" "userErrors p = []"
    by (auto simp: succeeded_def split: refund_response.splits option.splits)
  then show ?thesis
    unfolding createReferralRefund_def Let_def
    by (auto split: option.splits simp: refundLoop_succeeds_at_once)
qed

lemma markRewardAsPaid_total:
  assumes "findReward rid w = Some r"
  shows "\<exists>w'. markRewardAsPaid rid w = Inr w' \<and>
              findReward rid w' =
                Some (r\<lparr>reward_status := PAID, reward_paidAt := Some (clock w),
                        reward_updatedAt := clock w\<rparr>)"
proof -
  from assms obtain w' where w': "markRewardAsPaid rid w = Inr w'"
    by (auto simp: markRewardAsPaid_def updateReward_def)
  from markRewardAsPaid_find[OF w'] assms w' show ?thesis by auto
qed

lemma rewardCode_found:
  assumes "rewardCode w reward = Some c"
  shows "findCode (code_id c) w = Some c"
proof -
  from assms obtain cid where c: "findCode cid w = Some c"
    by (auto simp: rewardCode_def referralCode_def split: option.splits)
  then have "code_id c = cid" unfolding findCode_def by (rule find_key)
  with c show ?thesis by simp
qed

lemma backfillOrigin_total:
  "\<exists>w1. backfillOrigin ov (rewardCode w reward) w = Inr w1"
  by (auto simp: backfillOrigin_def updateCode_def rewardCode_found split: option.splits)

lemma processRewardRefund_resolved:
  assumes "findReward rid w = Some reward" and "reward_status reward = PENDING"
    and "resolveOrderGid ov (rewardCode w reward) = Some g" and "truthy g"
  shows "\<exists>w1. backfillOrigin ov (rewardCode w reward) w = Inr w1 \<and>
              processRewardRefund env rid ov w = settleAgainst env reward g w1"
proof -
  obtain w1 where "backfillOrigin ov (rewardCode w reward) w = Inr w1"
    using backfillOrigin_total by blast
  with assms show ?thesis by (simp add: processRewardRefund_def)
qed

lemma processRewardRefund_success_was_pending:
  assumes "processRewardRefund env rid ov w = (Inr res, w')"
  shows "\<exists>r. findReward rid w = Some r \<and> reward_status r = PENDING"
  using assms
  by (auto simp: processRewardRefund_def split: option.splits if_splits)

text \<open>The ceiling check of \<open>settleAgainst\<close>, by its outcome.\<close>

lemma settleAgainst_rejected:
  assumes "getReferralSettings w = (settings, w1)"
    and "maxRefundAllowedOf (getOrderTotalAmount (orderTotal env g)) settings = Some m"
    and "fadd (getTotalRefundedForCode g w1) (reward_amount reward) > m"
  shows "settleAgainst env reward g w =
           (Inl (RefundLimitReached (toFixed2 (max 0 (fsub m (getTotalRefundedForCode g w1))))
                   (reward_currency reward)), w1)"
  using assms by (simp add: settleAgainst_def)

lemma settleAgainst_admitted:
  assumes "getReferralSettings w = (settings, w1)"
    and "maxRefundAllowedOf (getOrderTotalAmount (orderTotal env g)) settings = m"
    and "case m of None \<Rightarrow> True
         | Some c \<Rightarrow> \<not> fadd (getTotalRefundedForCode g w1) (reward_amount reward) > c"
    and "findReward (reward_id reward) w = Some r"
  shows "(\<forall>left cur. fst (settleAgainst env reward g w) \<noteq> Inl (RefundLimitReached left cur)) \<and>
         (\<forall>res. fst (settleAgainst env reward g w) = Inr res \<longrightarrow>
            res = \<lparr> result_rewardId = reward_id reward,
                    result_totalRefunded = fadd (getTotalRefundedForCode g w1) (reward_amount reward),
                    result_maxRefundAllowed = m \<rparr>) \<and>
         (succeeded (refundCreate env 0) \<longrightarrow> (\<exists>res. fst (settleAgainst env reward g w) = Inr res)) \<and>
         (\<exists>n v. 0 < n \<and> outbox (snd (settleAgainst env reward g w)) = outbox w @ replicate n v \<and>
            refund_orderId v = g \<and> refund_amount v = reward_amount reward)"
proof -
  let ?c = "createReferralRefund env g (reward_amount reward) (reward_currency reward)
              (Some REFUND_NOTE) w1"
  obtain r2 w2 where c: "?c = (r2, w2)" by (cases ?c) blast
  have w1: "rewards w1 = rewards w" "outbox w1 = outbox w"
    using assms(1) by (auto simp: getReferralSettings_def split: option.splits)
  from createReferralRefund_tables[OF c] w1 assms(4)
  have found: "findReward (reward_id reward) w2 = Some r"
    by (simp add: sameTables_def findReward_def)
  then obtain w3 where w3: "markRewardAsPaid (reward_id reward) w2 = Inr w3"
    using markRewardAsPaid_total by blast
  have ob3: "outbox w3 = outbox w2"
    using w3 by (auto simp: markRewardAsPaid_def updateReward_def split: option.splits)
  have none: "(case m of None \<Rightarrow> None
               | Some c \<Rightarrow> if fadd (getTotalRefundedForCode g w1) (reward_amount reward) > c
                   then Some (max 0 (fsub c (getTotalRefundedForCode g w1))) else None) = None"
    using assms(3) by (auto split: option.splits)
  have eq: "settleAgainst env reward g w =
        (case r2 of
           Inl e \<Rightarrow> (Inl e, w2)
         | Inr _ \<Rightarrow> (Inr \<lparr> result_rewardId = reward_id reward,
                    result_totalRefunded = fadd (getTotalRefundedForCode g w1) (reward_amount reward),
                    result_maxRefundAllowed = m \<rparr>, sendCashbackConfirmationEmail reward w3))"
    using assms(1,2) none c w3
    by (simp add: settleAgainst_def split: sum.splits)
  from createReferralRefund_outbox[OF c] w1 ob3
  obtain n v where nv: "0 < n" "outbox w2 = outbox w @ replicate n v"
    "refund_orderId v = g" "refund_amount v = reward_amount reward" by auto
  have p1: "\<forall>left cur. fst (settleAgainst env reward g w) \<noteq> Inl (RefundLimitReached left cur)"
    using eq c by (auto split: sum.splits dest: createReferralRefund_error_kind)
  have p2: "\<forall>res. fst (settleAgainst env reward g w) = Inr res \<longrightarrow>
            res = \<lparr> result_rewardId = reward_id reward,
                    result_totalRefunded = fadd (getTotalRefundedForCode g w1) (reward_amount reward),
                    result_maxRefundAllowed = m \<rparr>"
    using eq by (auto split: sum.splits)
  have p3: "succeeded (refundCreate env 0) \<longrightarrow> (\<exists>res. fst (settleAgainst env reward g w) = Inr res)"
    using eq c createReferralRefund_succeeds_at_once[of env g "reward_amount reward"
        "reward_currency reward" "Some REFUND_NOTE" w1]
    by (auto split: sum.splits)
  have p4: "\<exists>n v. 0 < n \<and> outbox (snd (settleAgainst env reward g w)) = outbox w @ replicate n v \<and>
            refund_orderId v = g \<and> refund_amount v = reward_amount reward"
    using eq nv ob3
    by (auto split: sum.splits simp: sendCashbackConfirmationEmail_def)
  from p1 p2 p3 p4 show ?thesis by blast
qed

lemma refundLoop_warnings:
  "refundLoop env v a w = (res, w') \<Longrightarrow> warnings w' = warnings w"
proof (induction env v a w rule: refundLoop.induct)
  case (1 env variables attempt w)
  show ?case
    using "1.prems" "1.IH"
    by (subst (asm) refundLoop.simps)
       (auto split: if_splits refund_response.splits option.splits)
qed

lemma createReferralRefund_via_parent:
  assumes "createReferralRefund env g a cur note w = (res, w')"
    and "getOrderTransactionParentId (orderTransactions env g) = Some pid" and "pid \<noteq> []"
  shows "(\<exists>n. 0 < n \<and> outbox w' = outbox w @ replicate n
            \<lparr> refund_note = noteOf note, refund_orderId = g, refund_amount = a,
              refund_via = ViaParent pid \<rparr>) \<and> warnings w' = warnings w"
proof -
  let ?v = "\<lparr> refund_note = noteOf note, refund_orderId = g, refund_amount = a,
              refund_via = ViaParent pid \<rparr>"
  from assms have loop: "refundLoop env ?v 0 w = (res, w')"
    by (simp add: createReferralRefund_def truthy_def)
  from refundLoop_outbox[OF loop] refundLoop_warnings[OF loop] show ?thesis
    by (auto simp: maxRetries_def)
qed

lemma createReferralRefund_via_gateway:
  assumes "createReferralRefund env g a cur note w = (res, w')"
    and "\<not> truthyOpt (getOrderTransactionParentId (orderTransactions env g))"
  shows "(\<exists>n. 0 < n \<and> outbox w' = outbox w @ replicate n
            \<lparr> refund_note = noteOf note, refund_orderId = g, refund_amount = a,
              refund_via = ViaGateway (gatewayOf env) \<rparr>) \<and> warnings w' = warnings w @ [g]"
proof -
  let ?v = "\<lparr> refund_note = noteOf note, refund_orderId = g, refund_amount = a,
              refund_via = ViaGateway (gatewayOf env) \<rparr>"
  from assms have loop: "refundLoop env ?v 0 (w\<lparr>warnings := warnings w @ [g]\<rparr>) = (res, w')"
    by (simp add: createReferralRefund_def)
  from refundLoop_outbox[OF loop] refundLoop_warnings[OF loop] show ?thesis
    by (auto simp: maxRetries_def)
qed

section \<open>Facts about the registry, the settings and the creation of rows\<close>

lemma updateReferrer_result:
  assumes "findReferrer rid w = Some r" and "\<And>x. referrer_id (f x) = referrer_id x"
  shows "updateReferrer rid f w =
           (Inr ((f r)\<lparr>referrer_updatedAt := clock w\<rparr>),
            w\<lparr>referrers :=
               map (\<lambda>r. if referrer_id r = rid then (f r)\<lparr>referrer_updatedAt := clock w\<rparr> else r)
                 (referrers w)\<rparr>) \<and>
         findReferrer rid (snd (updateReferrer rid f w)) =
           Some ((f r)\<lparr>referrer_updatedAt := clock w\<rparr>)"
proof -
  have "find (\<lambda>x. referrer_id x = rid)
          (map (\<lambda>r. if referrer_id r = rid then (f r)\<lparr>referrer_updatedAt := clock w\<rparr> else r)
             (referrers w)) =
        map_option (\<lambda>r. (f r)\<lparr>referrer_updatedAt := clock w\<rparr>)
          (find (\<lambda>x. referrer_id x = rid) (referrers w))"
    by (rule find_map_same_key) (simp add: assms(2))
  with assms(1) show ?thesis
    by (simp add: updateReferrer_def findReferrer_def)
qed

lemma insertReward_result:
  "insertReward r w = (Inr x, w') \<Longrightarrow> x = r \<and> rewards w' = rewards w @ [r]"
  by (auto simp: insertReward_def split: if_splits)

lemma insertCode_result:
  "insertCode c w = (Inr x, w') \<Longrightarrow> x = c \<and> codes w' = codes w @ [c]"
  by (auto simp: insertCode_def split: if_splits)

lemma updateReferralSettings_frame:
  "rewards (snd (updateReferralSettings partial w)) = rewards w \<and>
   codes (snd (updateReferralSettings partial w)) = codes w \<and>
   referrals (snd (updateReferralSettings partial w)) = referrals w \<and>
   referrers (snd (updateReferralSettings partial w)) = referrers w"
  by (simp add: updateReferralSettings_def Let_def getReferralSettings_def split: option.splits)

lemma updateReferralSettings_read_back:
  "getReferralSettings (snd (updateReferralSettings partial w)) =
     (fst (updateReferralSettings partial w), snd (updateReferralSettings partial w))"
  by (simp add: updateReferralSettings_def Let_def getReferralSettings_def split: option.splits)

lemma updateReferralSettings_cashback:
  "partial_cashbackAmount partial = Some v \<Longrightarrow>
   cashbackAmount (fst (updateReferralSettings partial w)) = v"
  by (simp add: updateReferralSettings_def Let_def pick_def)

lemma markRewardAsPaid_amounts:
  "markRewardAsPaid rid w = Inr w' \<Longrightarrow> map reward_amount (rewards w') = map reward_amount (rewards w)"
  by (auto simp: markRewardAsPaid_def updateReward_def split: option.splits)

lemma settleAgainst_amounts:
  assumes "settleAgainst env reward g w = (res, w')"
  shows "map reward_amount (rewards w') = map reward_amount (rewards w)"
  using assms
  unfolding settleAgainst_def Let_def getReferralSettings_def
  by (auto split: option.splits prod.splits sum.splits if_splits
           dest!: createReferralRefund_tables markRewardAsPaid_amounts
           simp: sameTables_def sendCashbackConfirmationEmail_def)

lemma processRewardRefund_amounts:
  "map reward_amount (rewards (snd (processRewardRefund env rid ov w))) =
   map reward_amount (rewards w)"
proof -
  have "\<And>reward g w1. backfillOrigin ov (rewardCode w reward) w = Inr w1 \<Longrightarrow>
      map reward_amount (rewards (snd (settleAgainst env reward g w1))) = map reward_amount (rewards w)"
    using settleAgainst_amounts backfillOrigin_rewards by (metis prod.collapse)
  then show ?thesis
    by (auto simp: processRewardRefund_def split: option.splits sum.splits)
qed


section \<open>Facts about the purchase event handler\<close>

lemma getReferralSettings_frame:
  "referrers (snd (getReferralSettings w)) = referrers w \<and>
   codes (snd (getReferralSettings w)) = codes w \<and>
   referrals (snd (getReferralSettings w)) = referrals w \<and>
   rewards (snd (getReferralSettings w)) = rewards w \<and>
   clock (snd (getReferralSettings w)) = clock w"
  by (simp add: getReferralSettings_def split: option.splits)

lemma getOrCreateReferrerFromCustomer_frame:
  assumes "getOrCreateReferrerFromCustomer customer w = (res, w')"
  shows "codes w' = codes w \<and> referrals w' = referrals w \<and> rewards w' = rewards w \<and>
         clock w' = clock w"
  using assms
  by (auto simp: getOrCreateReferrerFromCustomer_def updateReferrer_def insertReferrer_def
           split: option.splits if_splits)

lemma updateCode_frame:
  assumes "updateCode cid f w = Inr w'"
  shows "referrals w' = referrals w \<and> rewards w' = rewards w \<and> referrers w' = referrers w \<and>
         clock w' = clock w \<and>
         codes w' = map (\<lambda>c. if code_id c = cid then (f c)\<lparr>code_updatedAt := clock w\<rparr> else c)
                      (codes w)"
  using assms by (auto simp: updateCode_def split: option.splits)






lemma createPendingReward_cases:
  assumes "createPendingReward rid fid settings cur pid ptitle w = (res, w')"
  shows "referrals w' = referrals w \<and> codes w' = codes w \<and>
         (rewards w' = rewards w \<or> (\<exists>r. rewards w' = rewards w @ [r]))"
  using assms
  by (auto simp: createPendingReward_def insertReward_def split: if_splits)








lemma codeTerms_ids: "map codeTerms xs = map codeTerms ys \<Longrightarrow> map code_id xs = map code_id ys"
proof -
  assume "map codeTerms xs = map codeTerms ys"
  then have "map (fst \<circ> fst) (map codeTerms xs) = map (fst \<circ> fst) (map codeTerms ys)" by simp
  then show ?thesis by (simp add: codeTerms_def comp_def)
qed

lemma codeTerms_find:
  "map codeTerms xs = map codeTerms ys \<Longrightarrow>
   map_option codeTerms (find (\<lambda>c. code_id c = k) xs) =
   map_option codeTerms (find (\<lambda>c. code_id c = k) ys)"
proof (induction xs arbitrary: ys)
  case Nil
  then show ?case by simp
next
  case (Cons x xs)
  then obtain y ys' where ys: "ys = y # ys'" by (cases ys) auto
  with Cons.prems have h: "codeTerms x = codeTerms y" "map codeTerms xs = map codeTerms ys'"
    by auto
  from h(1) have "code_id x = code_id y" by (simp add: codeTerms_def)
  with Cons.IH[OF h(2)] h(1) ys show ?case by simp
qed

lemma updateCode_terms:
  assumes "updateCode cid f w = Inr w'" and "\<And>c. codeTerms (f c) = codeTerms c"
  shows "map codeTerms (codes w') = map codeTerms (codes w)"
proof -
  have "\<And>c. codeTerms ((f c)\<lparr>code_updatedAt := clock w\<rparr>) = codeTerms c"
    using assms(2) by (simp add: codeTerms_def)
  with updateCode_frame[OF assms(1)] show ?thesis
    by (simp add: map_idI cong: map_cong)
qed

lemma linkDiscount_terms:
  assumes "linkDiscount env cid w = Inr w'"
  shows "map codeTerms (codes w') = map codeTerms (codes w)"
  using assms
  by (auto simp: linkDiscount_def linkShopifyDiscountId_def codeTerms_def
           split: option.splits prod.splits intro!: updateCode_terms)

lemma markCodeAsUsed_terms:
  assumes "markCodeAsUsed cid w = Inr w'"
  shows "map codeTerms (codes w') = map codeTerms (codes w)"
  using assms
  by (auto simp: markCodeAsUsed_def codeTerms_def intro!: updateCode_terms)

lemma createReferral_codes: "codes (snd (createReferral input w)) = codes w"
  by (simp add: createReferral_def insertReferral_def split: option.splits)

lemma recordReferredPurchase_terms:
  assumes "recordReferredPurchase payload customer orderId settings product w = (res, w')"
  shows "map codeTerms (codes w') = map codeTerms (codes w)"
proof -
  have cr: "\<And>input r w1. createReferral input w = (r, w1) \<Longrightarrow> codes w1 = codes w"
    using createReferral_codes by (metis snd_conv)
  show ?thesis
    using assms
    unfolding recordReferredPurchase_def
    by (auto split: option.splits prod.splits sum.splits
             dest!: cr createPendingReward_cases markCodeAsUsed_terms)
qed

lemma latestCode_mem: "latestCode cs = Some c \<Longrightarrow> c \<in> set cs"
  by (induction cs arbitrary: c) (auto split: option.splits if_splits)

lemma latestCode_nonempty: "cs \<noteq> [] \<Longrightarrow> latestCode cs \<noteq> None"
  by (cases cs) (auto split: option.splits)

lemma selectCode_mem:
  assumes "selectCode orderId rid w = Some c"
  shows "c \<in> set (codes w)"
  using assms
  by (auto simp: selectCode_def findCodeByOriginOrderId_def find_Some_iff
           split: option.splits dest!: latestCode_mem)

lemma selectCode_exists:
  assumes "list_ex (\<lambda>c. code_referrerId c = rid) (codes w)"
  shows "selectCode orderId rid w \<noteq> None"
proof -
  from assms have "filter (\<lambda>c. code_referrerId c = rid) (codes w) \<noteq> []"
    by (auto simp: list_ex_iff filter_empty_conv)
  then show ?thesis
    by (auto simp: selectCode_def split: option.splits dest: latestCode_nonempty)
qed

lemma find_by_distinct_key:
  assumes "distinct (map key xs)" and "x \<in> set xs"
  shows "find (\<lambda>y. key y = key x) xs = Some x"
  using assms by (induction xs) (auto simp: image_iff)

lemma issueOrRefreshCode_refresh:
  assumes "selectCode orderId (referrer_id referrer) w = Some codeRecord"
    and "distinct (map code_id (codes w))"
    and "issueOrRefreshCode env payload orderId settings product referrer w = (res, w')"
  shows "map_option codeTerms (findCode (code_id codeRecord) w') =
           Some (codeTerms (refreshCode codeRecord orderId (payload_admin_graphql_api_id payload)
                              product settings (clock w) codeRecord)) \<and>
         map code_id (codes w') = map code_id (codes w)"
proof -
  let ?f = "refreshCode codeRecord orderId (payload_admin_graphql_api_id payload)
              product settings (clock w)"
  have idf: "\<And>c. code_id (?f c) = code_id c" by (simp add: refreshCode_def)
  have found: "findCode (code_id codeRecord) w = Some codeRecord"
    unfolding findCode_def
    using find_by_distinct_key[OF assms(2) selectCode_mem[OF assms(1)]] by simp
  then obtain w1 where u: "updateCode (code_id codeRecord) ?f w = Inr w1"
    by (auto simp: updateCode_def)
  have c1: "codes w1 = map (\<lambda>c. if code_id c = code_id codeRecord
                                 then (?f c)\<lparr>code_updatedAt := clock w\<rparr> else c) (codes w)"
    using updateCode_frame[OF u] by simp
  have "find (\<lambda>c. code_id c = code_id codeRecord) (codes w1) =
        map_option (\<lambda>c. (?f c)\<lparr>code_updatedAt := clock w\<rparr>)
          (find (\<lambda>c. code_id c = code_id codeRecord) (codes w))"
    unfolding c1 by (rule find_map_same_key) (simp add: idf)
  with found have f1: "findCode (code_id codeRecord) w1 =
      Some ((?f codeRecord)\<lparr>code_updatedAt := clock w\<rparr>)"
    by (simp add: findCode_def)
  have ids1: "map code_id (codes w1) = map code_id (codes w)"
    unfolding c1 by (simp add: idf cong: map_cong)
  have "w' = w1 \<or> linkDiscount env (code_id codeRecord) w1 = Inr w'"
    using assms(1,3) u
    by (auto simp: issueOrRefreshCode_def split: sum.splits)
  then have t: "map codeTerms (codes w') = map codeTerms (codes w1)"
    using linkDiscount_terms by auto
  from codeTerms_find[OF t, of "code_id codeRecord"] f1
  have "map_option codeTerms (findCode (code_id codeRecord) w') =
          Some (codeTerms ((?f codeRecord)\<lparr>code_updatedAt := clock w\<rparr>))"
    by (simp add: findCode_def)
  moreover have "codeTerms ((?f codeRecord)\<lparr>code_updatedAt := clock w\<rparr>) = codeTerms (?f codeRecord)"
    by (simp add: codeTerms_def)
  ultimately show ?thesis
    using codeTerms_ids[OF t] ids1 by simp
qed







section \<open>Claims about the settlement engine\<close>

text \<open>
  Claim C1, as amended. For a settlement of a PENDING reward whose order is resolved
  and whose order total is known and is not zero, with the arithmetic of the program
  (sum, product and difference of doubles): the ceiling is the order total times
  \<open>maxRefundPercentage\<close>; the settlement is rejected with the refund-limit error exactly
  when the sum already paid plus the amount of the reward exceeds the ceiling, the error
  carries \<open>max 0 (ceiling - alreadyPaid)\<close> printed with two decimals, and the reward
  table and the list of refund requests are untouched; otherwise the ceiling never
  rejects, a success reports the sum already paid plus the amount and the ceiling, and
  the settlement succeeds when the platform accepts the first refund request. The sum
  already paid is read after the override, if any, has been written onto a code without
  origin order.
\<close>

theorem ceiling_enforced_for_nonzero_total:
  assumes "findReward rid w = Some reward" and "reward_status reward = PENDING"
    and "resolveOrderGid ov (rewardCode w reward) = Some g" and "truthy g"
    and "backfillOrigin ov (rewardCode w reward) w = Inr w1"
    and "getReferralSettings w1 = (settings, w2)"
    and "orderTotal env g = TotalAmount t" and "t \<noteq> 0"
  shows "(fadd (getTotalRefundedForCode g w2) (reward_amount reward)
            > fmul t (maxRefundPercentage settings) \<longrightarrow>
            processRewardRefund env rid ov w =
              (Inl (RefundLimitReached
                      (toFixed2 (max 0 (fsub (fmul t (maxRefundPercentage settings))
                                          (getTotalRefundedForCode g w2))))
                      (reward_currency reward)), w2) \<and>
            rewards w2 = rewards w \<and> outbox w2 = outbox w) \<and>
         (\<not> fadd (getTotalRefundedForCode g w2) (reward_amount reward)
              > fmul t (maxRefundPercentage settings) \<longrightarrow>
            (\<forall>left cur. fst (processRewardRefund env rid ov w) \<noteq> Inl (RefundLimitReached left cur)) \<and>
            (\<forall>res. fst (processRewardRefund env rid ov w) = Inr res \<longrightarrow>
               res = \<lparr> result_rewardId = rid,
                       result_totalRefunded =
                         fadd (getTotalRefundedForCode g w2) (reward_amount reward),
                       result_maxRefundAllowed = Some (fmul t (maxRefundPercentage settings)) \<rparr>) \<and>
            (succeeded (refundCreate env 0) \<longrightarrow>
               (\<exists>res. fst (processRewardRefund env rid ov w) = Inr res)))"
proof -
  let ?ceiling = "fmul t (maxRefundPercentage settings)"
  let ?sum = "fadd (getTotalRefundedForCode g w2) (reward_amount reward)"
  have eq: "processRewardRefund env rid ov w = settleAgainst env reward g w1"
    using processRewardRefund_resolved[OF assms(1-4)] assms(5) by auto
  have m: "maxRefundAllowedOf (getOrderTotalAmount (orderTotal env g)) settings = Some ?ceiling"
    using assms(7,8) by (simp add: maxRefundAllowedOf_def getOrderTotalAmount_def)
  have rid: "reward_id reward = rid"
    using assms(1) unfolding findReward_def by (rule find_key)
  have tabs: "rewards w2 = rewards w" "outbox w2 = outbox w"
    using assms(6) backfillOrigin_rewards[OF assms(5)]
    by (auto simp: getReferralSettings_def split: option.splits)
  have found1: "findReward (reward_id reward) w1 = Some reward"
    using assms(1) rid backfillOrigin_rewards[OF assms(5)] by (simp add: findReward_def)
  show ?thesis
  proof (intro conjI impI)
    assume over: "?sum > ?ceiling"
    from settleAgainst_rejected[OF assms(6) m over] eq
    show "processRewardRefund env rid ov w =
              (Inl (RefundLimitReached
                      (toFixed2 (max 0 (fsub ?ceiling (getTotalRefundedForCode g w2))))
                      (reward_currency reward)), w2)" by simp
    show "rewards w2 = rewards w" by (rule tabs)
    show "outbox w2 = outbox w" by (rule tabs)
  next
    assume ok: "\<not> ?sum > ?ceiling"
    then have ok': "case Some ?ceiling of None \<Rightarrow> True | Some c \<Rightarrow> \<not> ?sum > c" by simp
    note adm = settleAgainst_admitted[OF assms(6) m ok' found1]
    from adm eq show "\<forall>left cur. fst (processRewardRefund env rid ov w) \<noteq> Inl (RefundLimitReached left cur)"
      by simp
    from adm eq rid show "\<forall>res. fst (processRewardRefund env rid ov w) = Inr res \<longrightarrow>
               res = \<lparr> result_rewardId = rid, result_totalRefunded = ?sum,
                       result_maxRefundAllowed = Some ?ceiling \<rparr>"
      by simp
    assume "succeeded (refundCreate env 0)"
    with adm eq show "\<exists>res. fst (processRewardRefund env rid ov w) = Inr res" by simp
  qed
qed

text \<open>
  Order total 100, at most half refundable, 30 already paid: the reward of 25 is
  rejected with 20 left and nothing changes; the reward of 20 is settled and brings the
  total paid to 50. Order total 6.60, at most half refundable, 1.10 already paid: the
  sum of the doubles 1.10 and 2.20 exceeds the double 3.30, so the reward of 2.20 is
  rejected, with 2.20 printed as left.
\<close>

theorem ceiling_enforced_for_nonzero_total_witness:
  "processRewardRefund (acceptingShop (TotalAmount 100) saleTransactions) 21 None ledgerWorld =
     (Inl (RefundLimitReached 20 ''EUR''), ledgerWorld) \<and>
   fst (processRewardRefund (acceptingShop (TotalAmount 100) saleTransactions) 22 None ledgerWorld) =
     Inr \<lparr> result_rewardId = 22, result_totalRefunded = 50, result_maxRefundAllowed = Some 50 \<rparr> \<and>
   fadd (roundDouble (11 / 10)) (roundDouble (22 / 10)) > fmul (roundDouble (66 / 10)) (1 / 2) \<and>
   processRewardRefund (acceptingShop (TotalAmount (roundDouble (66 / 10))) saleTransactions) 31
       None centsWorld =
     (Inl (RefundLimitReached (22 / 10) ''EUR''), centsWorld)"
proof -
  let ?env = "acceptingShop (TotalAmount 100) saleTransactions"
  let ?s = "DEFAULT_SETTINGS\<lparr>maxRefundPercentage := 1 / 2\<rparr>"
  let ?g = "''gid://shopify/Order/7''"
  let ?r21 = "sampleReward 21 1 (Some 11) 25 PENDING"
  let ?r22 = "sampleReward 22 1 (Some 12) 20 PENDING"
  have paid: "getTotalRefundedForCode ?g ledgerWorld = 30" by code_simp
  have ar: "fadd 30 25 = 55" "fadd 30 20 = 50" "fmul 100 (1 / 2) = 50"
    "toFixed2 (max 0 (fsub 50 30)) = 20"
    by code_simp+
  have r21: "findReward 21 ledgerWorld = Some ?r21" by code_simp
  have r22: "findReward 22 ledgerWorld = Some ?r22" by code_simp
  have g21: "resolveOrderGid None (rewardCode ledgerWorld ?r21) = Some ?g" by code_simp
  have g22: "resolveOrderGid None (rewardCode ledgerWorld ?r22) = Some ?g" by code_simp
  have b21: "backfillOrigin None (rewardCode ledgerWorld ?r21) ledgerWorld = Inr ledgerWorld"
    by (simp add: backfillOrigin_def)
  have b22: "backfillOrigin None (rewardCode ledgerWorld ?r22) ledgerWorld = Inr ledgerWorld"
    by (simp add: backfillOrigin_def)
  have s: "getReferralSettings ledgerWorld = (?s, ledgerWorld)"
    by (simp add: getReferralSettings_def ledgerWorld_def)
  have t: "orderTotal ?env ?g = TotalAmount 100" by (simp add: acceptingShop_def)
  have ok: "succeeded (refundCreate ?env 0)" by (simp add: acceptingShop_def succeeded_def)
  have st: "reward_status ?r21 = PENDING" "reward_status ?r22 = PENDING"
    by (simp_all add: sampleReward_def)
  have tg: "truthy ?g" by (simp add: truthy_def)
  have nz: "(100::rat) \<noteq> 0" by simp
  from ceiling_enforced_for_nonzero_total[OF r21 st(1) g21 tg b21 s t nz] paid ar
  have a: "processRewardRefund ?env 21 None ledgerWorld =
             (Inl (RefundLimitReached 20 ''EUR''), ledgerWorld)"
    by (simp add: sampleReward_def DEFAULT_SETTINGS_def)
  from ceiling_enforced_for_nonzero_total[OF r22 st(2) g22 tg b22 s t nz] paid ok ar
  have b: "fst (processRewardRefund ?env 22 None ledgerWorld) =
     Inr \<lparr> result_rewardId = 22, result_totalRefunded = 50, result_maxRefundAllowed = Some 50 \<rparr>"
    by (auto simp: sampleReward_def DEFAULT_SETTINGS_def)
  let ?envc = "acceptingShop (TotalAmount (roundDouble (66 / 10))) saleTransactions"
  let ?r31 = "sampleReward 31 1 (Some 11) (roundDouble (22 / 10)) PENDING"
  have paidc: "getTotalRefundedForCode ?g centsWorld = roundDouble (11 / 10)" by code_simp
  have over: "fadd (roundDouble (11 / 10)) (roundDouble (22 / 10))
                > fmul (roundDouble (66 / 10)) (1 / 2)" by code_simp
  have left: "toFixed2 (max 0 (fsub (fmul (roundDouble (66 / 10)) (1 / 2))
                                 (roundDouble (11 / 10)))) = 22 / 10" by code_simp
  have r31: "findReward 31 centsWorld = Some ?r31" by code_simp
  have g31: "resolveOrderGid None (rewardCode centsWorld ?r31) = Some ?g" by code_simp
  have b31: "backfillOrigin None (rewardCode centsWorld ?r31) centsWorld = Inr centsWorld"
    by (simp add: backfillOrigin_def)
  have sc: "getReferralSettings centsWorld = (?s, centsWorld)"
    by (simp add: getReferralSettings_def centsWorld_def)
  have tc: "orderTotal ?envc ?g = TotalAmount (roundDouble (66 / 10))"
    by (simp add: acceptingShop_def)
  have st31: "reward_status ?r31 = PENDING" by (simp add: sampleReward_def)
  have nzc: "roundDouble (66 / 10) \<noteq> 0" by code_simp
  have sel: "maxRefundPercentage ?s = 1 / 2" "reward_amount ?r31 = roundDouble (22 / 10)"
    "reward_currency ?r31 = ''EUR''"
    by (simp_all add: sampleReward_def DEFAULT_SETTINGS_def)
  from ceiling_enforced_for_nonzero_total[OF r31 st31 g31 tg b31 sc tc nzc]
  have c: "processRewardRefund ?envc 31 None centsWorld =
             (Inl (RefundLimitReached (22 / 10) ''EUR''), centsWorld)"
    unfolding paidc sel using over left by simp
  from a b c over show ?thesis by simp
qed

text \<open>
  Claim C1 as stated fails for a known order total of zero: the ceiling would be 0 and
  the reward of 25 (30 being already paid) would be rejected, but the settlement goes
  through with no ceiling.
\<close>

theorem ceiling_for_known_total_counterexample:
  "getOrderTotalAmount (orderTotal (acceptingShop (TotalAmount 0) saleTransactions) ''gid://shopify/Order/7'') = Some 0 \<and>
   fadd (getTotalRefundedForCode ''gid://shopify/Order/7'' ledgerWorld) 25 > fmul 0 (1 / 2) \<and>
   fst (processRewardRefund (acceptingShop (TotalAmount 0) saleTransactions) 21 None ledgerWorld) =
     Inr \<lparr> result_rewardId = 21, result_totalRefunded = 55, result_maxRefundAllowed = None \<rparr>"
  by code_simp

text \<open>
  Claim C2. Settlement of a reward whose status is not PENDING is rejected with the
  invalid-state error and leaves the whole state as it was: no table changes and no
  refund request is sent. In particular, after a settlement of a reward has succeeded,
  a second settlement of the same reward (whatever the platform would answer and
  whatever override is given) is rejected in that way.
\<close>

theorem settle_is_single_use:
  "(findReward rid w = Some r \<and> reward_status r \<noteq> PENDING \<longrightarrow>
      processRewardRefund env rid ov w = (Inl NotPending, w)) \<and>
   (processRewardRefund env rid ov w = (Inr res, w') \<longrightarrow>
      processRewardRefund env' rid ov' w' = (Inl NotPending, w'))"
proof (intro conjI impI)
  assume "findReward rid w = Some r \<and> reward_status r \<noteq> PENDING"
  then show "processRewardRefund env rid ov w = (Inl NotPending, w)"
    by (simp add: processRewardRefund_not_pending)
next
  assume "processRewardRefund env rid ov w = (Inr res, w')"
  then obtain r where "findReward rid w' = Some r" "reward_status r = PAID"
    using processRewardRefund_success_paid by blast
  then show "processRewardRefund env' rid ov' w' = (Inl NotPending, w')"
    by (simp add: processRewardRefund_not_pending)
qed

text \<open>
  The pending reward of 20 is settled on a platform that accepts the refund: one refund
  request goes out; settling it again, on any platform, is rejected and the state stays.
\<close>

theorem settle_is_single_use_witness:
  "fst (processRewardRefund (acceptingShop (TotalAmount 100) saleTransactions) 22 None
          ledgerWorld) =
     Inr \<lparr>result_rewardId = 22, result_totalRefunded = 50,
          result_maxRefundAllowed = Some 50\<rparr> \<and>
   processRewardRefund busyShop 22 None
     (snd (processRewardRefund (acceptingShop (TotalAmount 100) saleTransactions) 22 None
             ledgerWorld)) =
     (Inl NotPending,
      snd (processRewardRefund (acceptingShop (TotalAmount 100) saleTransactions) 22 None
             ledgerWorld)) \<and>
   outbox (snd (processRewardRefund (acceptingShop (TotalAmount 100) saleTransactions) 22
                  None ledgerWorld)) =
     [\<lparr>refund_note = REFUND_NOTE, refund_orderId = ''gid://shopify/Order/7'',
       refund_amount = 20, refund_via = ViaParent ''tx-1''\<rparr>]"
proof -
  let ?p = "processRewardRefund (acceptingShop (TotalAmount 100) saleTransactions) 22 None
              ledgerWorld"
  have a: "fst ?p = Inr \<lparr>result_rewardId = 22, result_totalRefunded = 50,
                          result_maxRefundAllowed = Some 50\<rparr>"
    by code_simp
  then have b: "?p = (Inr \<lparr>result_rewardId = 22, result_totalRefunded = 50,
                             result_maxRefundAllowed = Some 50\<rparr>, snd ?p)"
    by (metis prod.collapse)
  have c: "outbox (snd ?p) =
             [\<lparr>refund_note = REFUND_NOTE, refund_orderId = ''gid://shopify/Order/7'',
               refund_amount = 20, refund_via = ViaParent ''tx-1''\<rparr>]"
    by code_simp
  from settle_is_single_use[of 22 ledgerWorld _ _ None, THEN conjunct2, rule_format, OF b] a c
  show ?thesis by simp
qed

text \<open>
  Claim C3. When the refund step fails (the first answer of the platform is a
  permanent failure, or a retry ends in one, or the third answer is still not a
  success), the settlement returns an error to the caller and the reward table is left
  as it was, so the reward is still PENDING. At most three refund requests are sent, all
  the same, and a request is repeated only after the answer that reports the order as
  temporarily unavailable.
\<close>

theorem refund_failure_keeps_pending:
  assumes "refundFails env"
  shows "(\<exists>e. fst (processRewardRefund env rid ov w) = Inl e) \<and>
         rewards (snd (processRewardRefund env rid ov w)) = rewards w \<and>
         (\<exists>n v. outbox (snd (processRewardRefund env rid ov w)) = outbox w @ replicate n v \<and>
                n \<le> 3 \<and> (\<forall>i. Suc i < n \<longrightarrow> transientFailure (refundCreate env i)))"
proof (intro conjI)
  from processRewardRefund_refund_fails[OF assms]
  obtain e where e: "fst (processRewardRefund env rid ov w) = Inl e" by blast
  then show "\<exists>e. fst (processRewardRefund env rid ov w) = Inl e" ..
  from e have "processRewardRefund env rid ov w = (Inl e, snd (processRewardRefund env rid ov w))"
    by (metis prod.collapse)
  then show "rewards (snd (processRewardRefund env rid ov w)) = rewards w"
    by (rule processRewardRefund_failure_rewards)
  from processRewardRefund_outbox[of env rid ov w]
  show "\<exists>n v. outbox (snd (processRewardRefund env rid ov w)) = outbox w @ replicate n v \<and>
                n \<le> 3 \<and> (\<forall>i. Suc i < n \<longrightarrow> transientFailure (refundCreate env i))"
    by (simp add: maxRetries_def)
qed

text \<open>
  On a platform that always reports the order as temporarily unavailable, the pending
  reward of 20 stays PENDING after three requests and waits of 2 and 4 seconds.
\<close>

theorem refund_failure_keeps_pending_witness:
  "refundFails busyShop \<and>
   fst (processRewardRefund busyShop 22 None ledgerWorld) =
     Inl (ShopifyUserErrors [Some ''Order is temporarily unavailable'']) \<and>
   rewards (snd (processRewardRefund busyShop 22 None ledgerWorld)) = rewards ledgerWorld \<and>
   map_option reward_status (findReward 22 (snd (processRewardRefund busyShop 22 None ledgerWorld))) = Some PENDING \<and>
   length (outbox (snd (processRewardRefund busyShop 22 None ledgerWorld))) = 3 \<and>
   sleeps (snd (processRewardRefund busyShop 22 None ledgerWorld)) = [2000, 4000]"
proof -
  have f: "refundFails busyShop" by code_simp
  have a: "fst (processRewardRefund busyShop 22 None ledgerWorld) =
     Inl (ShopifyUserErrors [Some ''Order is temporarily unavailable''])" by code_simp
  have b: "map_option reward_status (findReward 22 (snd (processRewardRefund busyShop 22 None ledgerWorld))) = Some PENDING"
    by code_simp
  have c: "length (outbox (snd (processRewardRefund busyShop 22 None ledgerWorld))) = 3" by code_simp
  have d: "sleeps (snd (processRewardRefund busyShop 22 None ledgerWorld)) = [2000, 4000]" by code_simp
  from refund_failure_keeps_pending[OF f, of 22 None ledgerWorld] f a b c d
  show ?thesis by simp
qed

text \<open>
  Claim C6, as amended. The write that marks a reward as paid is an unconditional
  update by primary key: for a stored reward of any status (PENDING, PAID or FAILED) it
  succeeds and writes status PAID and \<open>paidAt\<close> (and \<open>updatedAt\<close>) at the current time.
  The condition on the status is the read at the start of the settlement: a settlement
  succeeds only for a reward that it read as PENDING.
\<close>

theorem mark_as_paid_is_unconditional:
  "(findReward rid w = Some r \<longrightarrow>
      (\<exists>w'. markRewardAsPaid rid w = Inr w' \<and>
            findReward rid w' =
              Some (r\<lparr>reward_status := PAID, reward_paidAt := Some (clock w),
                      reward_updatedAt := clock w\<rparr>))) \<and>
   (processRewardRefund env rid ov w = (Inr res, w'') \<longrightarrow>
      (\<exists>r. findReward rid w = Some r \<and> reward_status r = PENDING))"
  using markRewardAsPaid_total processRewardRefund_success_was_pending by blast

text \<open>The reward marked FAILED is written to PAID at time 5000.\<close>

theorem mark_as_paid_is_unconditional_witness:
  "findReward 23 ledgerWorld = Some (sampleReward 23 1 (Some 13) 15 FAILED) \<and>
   (\<exists>w'. markRewardAsPaid 23 ledgerWorld = Inr w' \<and>
         findReward 23 w' =
           Some ((sampleReward 23 1 (Some 13) 15 FAILED)
                   \<lparr>reward_status := PAID, reward_paidAt := Some 5000, reward_updatedAt := 5000\<rparr>))"
proof -
  have a: "findReward 23 ledgerWorld = Some (sampleReward 23 1 (Some 13) 15 FAILED)" by code_simp
  have c: "clock ledgerWorld = 5000" by (simp add: ledgerWorld_def)
  from mark_as_paid_is_unconditional[of 23 ledgerWorld, THEN conjunct1, rule_format, OF a] a c
  show ?thesis by simp
qed

text \<open>
  Claim C6 as stated fails: applied to the FAILED reward and to the reward paid at time
  1000, the operation succeeds and rewrites the status and the payment time.
\<close>

theorem mark_as_paid_conditional_counterexample:
  "map_option (\<lambda>r. (reward_status r, reward_paidAt r)) (findReward 23 ledgerWorld) =
     Some (FAILED, None) \<and>
   (case markRewardAsPaid 23 ledgerWorld of
      Inl e \<Rightarrow> None
    | Inr w' \<Rightarrow> map_option (\<lambda>r. (reward_status r, reward_paidAt r)) (findReward 23 w')) =
     Some (PAID, Some 5000) \<and>
   map_option (\<lambda>r. (reward_status r, reward_paidAt r)) (findReward 20 ledgerWorld) =
     Some (PAID, Some 1000) \<and>
   (case markRewardAsPaid 20 ledgerWorld of
      Inl e \<Rightarrow> None
    | Inr w' \<Rightarrow> map_option (\<lambda>r. (reward_status r, reward_paidAt r)) (findReward 20 w')) =
     Some (PAID, Some 5000)"
  by code_simp

text \<open>
  Claim C9, as amended. A refund is issued against a specific transaction of the order
  whenever the transaction query yields a non-empty transaction id: the id of the first
  transaction of kind CAPTURE or SALE with status SUCCESS when there is one with an id,
  and otherwise the id of the first transaction of the list, whatever its kind and
  status. The store-credit-style fallback, with its warning, is used only when no such
  id is found (a failed query, an empty list, a first transaction without id, an empty
  id). In both cases every request of the refund step is the same, and a successful
  settlement leaves the reward PAID.
\<close>

theorem refund_target_selection:
  "(createReferralRefund env g a cur note w = (res, w') \<and>
    getOrderTransactionParentId (orderTransactions env g) = Some pid \<and> pid \<noteq> [] \<longrightarrow>
      (\<exists>n. 0 < n \<and> outbox w' = outbox w @ replicate n
            \<lparr> refund_note = noteOf note, refund_orderId = g, refund_amount = a,
              refund_via = ViaParent pid \<rparr>) \<and> warnings w' = warnings w) \<and>
   (createReferralRefund env g a cur note w = (res, w') \<and>
    \<not> truthyOpt (getOrderTransactionParentId (orderTransactions env g)) \<longrightarrow>
      (\<exists>n. 0 < n \<and> outbox w' = outbox w @ replicate n
            \<lparr> refund_note = noteOf note, refund_orderId = g, refund_amount = a,
              refund_via = ViaGateway (gatewayOf env) \<rparr>) \<and> warnings w' = warnings w @ [g]) \<and>
   (find validTransaction txs = Some (Some node) \<and> tx_id node = Some i \<longrightarrow>
      getOrderTransactionParentId (Transactions txs) = Some i) \<and>
   (find validTransaction txs = None \<longrightarrow>
      getOrderTransactionParentId (Transactions txs) =
        (case txs of [] \<Rightarrow> None | None # _ \<Rightarrow> None | Some first # _ \<Rightarrow> tx_id first)) \<and>
   (find validTransaction txs = Some (Some node) \<and> tx_id node = None \<longrightarrow>
      getOrderTransactionParentId (Transactions txs) =
        (case txs of [] \<Rightarrow> None | None # _ \<Rightarrow> None | Some first # _ \<Rightarrow> tx_id first)) \<and>
   getOrderTransactionParentId (Transactions []) = None \<and>
   getOrderTransactionParentId TransactionsFailed = None \<and>
   (processRewardRefund env rid ov w = (Inr result, w'') \<longrightarrow>
      (\<exists>r. findReward rid w'' = Some r \<and> reward_status r = PAID))"
proof (intro conjI impI)
  assume "createReferralRefund env g a cur note w = (res, w') \<and>
    getOrderTransactionParentId (orderTransactions env g) = Some pid \<and> pid \<noteq> []"
  then have x: "(\<exists>n. 0 < n \<and> outbox w' = outbox w @ replicate n
            \<lparr> refund_note = noteOf note, refund_orderId = g, refund_amount = a,
              refund_via = ViaParent pid \<rparr>) \<and> warnings w' = warnings w"
    using createReferralRefund_via_parent by blast
  from x show "\<exists>n. 0 < n \<and> outbox w' = outbox w @ replicate n
            \<lparr> refund_note = noteOf note, refund_orderId = g, refund_amount = a,
              refund_via = ViaParent pid \<rparr>" by blast
  from x show "warnings w' = warnings w" by blast
next
  assume "createReferralRefund env g a cur note w = (res, w') \<and>
    \<not> truthyOpt (getOrderTransactionParentId (orderTransactions env g))"
  then have x: "(\<exists>n. 0 < n \<and> outbox w' = outbox w @ replicate n
            \<lparr> refund_note = noteOf note, refund_orderId = g, refund_amount = a,
              refund_via = ViaGateway (gatewayOf env) \<rparr>) \<and> warnings w' = warnings w @ [g]"
    using createReferralRefund_via_gateway by blast
  from x show "\<exists>n. 0 < n \<and> outbox w' = outbox w @ replicate n
            \<lparr> refund_note = noteOf note, refund_orderId = g, refund_amount = a,
              refund_via = ViaGateway (gatewayOf env) \<rparr>" by blast
  from x show "warnings w' = warnings w @ [g]" by blast
next
  assume "find validTransaction txs = Some (Some node) \<and> tx_id node = Some i"
  then show "getOrderTransactionParentId (Transactions txs) = Some i"
    by (simp add: getOrderTransactionParentId_def nodeId_def)
next
  assume "find validTransaction txs = None"
  then show "getOrderTransactionParentId (Transactions txs) =
        (case txs of [] \<Rightarrow> None | None # _ \<Rightarrow> None | Some first # _ \<Rightarrow> tx_id first)"
    by (simp add: getOrderTransactionParentId_def nodeId_def firstEdge_def
             split: list.splits option.splits)
next
  assume "find validTransaction txs = Some (Some node) \<and> tx_id node = None"
  then show "getOrderTransactionParentId (Transactions txs) =
        (case txs of [] \<Rightarrow> None | None # _ \<Rightarrow> None | Some first # _ \<Rightarrow> tx_id first)"
    by (simp add: getOrderTransactionParentId_def nodeId_def firstEdge_def
             split: list.splits option.splits)
next
  show "getOrderTransactionParentId (Transactions []) = None"
    by (simp add: getOrderTransactionParentId_def nodeId_def firstEdge_def)
  show "getOrderTransactionParentId TransactionsFailed = None"
    by (simp add: getOrderTransactionParentId_def)
next
  assume "processRewardRefund env rid ov w = (Inr result, w'')"
  then show "\<exists>r. findReward rid w'' = Some r \<and> reward_status r = PAID"
    by (rule processRewardRefund_success_paid)
qed

text \<open>
  An order without any transaction: the refund of the pending reward of 20 names the
  gateway \<open>store-credit\<close>, the fallback is warned about, and the reward ends PAID.
\<close>

theorem refund_target_selection_witness:
  "\<not> truthyOpt (getOrderTransactionParentId
       (orderTransactions (acceptingShop (TotalAmount 100) (Transactions []))
          ''gid://shopify/Order/7'')) \<and>
   outbox (snd (createReferralRefund (acceptingShop (TotalAmount 100) (Transactions []))
                  ''gid://shopify/Order/7'' 20 ''EUR'' (Some REFUND_NOTE) ledgerWorld)) =
     [\<lparr> refund_note = REFUND_NOTE, refund_orderId = ''gid://shopify/Order/7'',
        refund_amount = 20, refund_via = ViaGateway ''store-credit'' \<rparr>] \<and>
   warnings (snd (createReferralRefund (acceptingShop (TotalAmount 100) (Transactions []))
                    ''gid://shopify/Order/7'' 20 ''EUR'' (Some REFUND_NOTE) ledgerWorld)) =
     [''gid://shopify/Order/7''] \<and>
   map_option reward_status
     (findReward 22
        (snd (processRewardRefund (acceptingShop (TotalAmount 100) (Transactions [])) 22 None
                ledgerWorld))) = Some PAID"
proof -
  let ?env = "acceptingShop (TotalAmount 100) (Transactions [])"
  let ?c = "createReferralRefund ?env ''gid://shopify/Order/7'' 20 ''EUR'' (Some REFUND_NOTE)
              ledgerWorld"
  have a: "\<not> truthyOpt (getOrderTransactionParentId
             (orderTransactions ?env ''gid://shopify/Order/7''))"
    by code_simp
  have c: "?c = (fst ?c, snd ?c)" by simp
  have b: "outbox (snd ?c) =
     [\<lparr> refund_note = REFUND_NOTE, refund_orderId = ''gid://shopify/Order/7'',
        refund_amount = 20, refund_via = ViaGateway ''store-credit'' \<rparr>]"
    by code_simp
  have d: "map_option reward_status
     (findReward 22 (snd (processRewardRefund ?env 22 None ledgerWorld))) = Some PAID"
    by code_simp
  from refund_target_selection[of ?env "''gid://shopify/Order/7''" 20 "''EUR''"
         "Some REFUND_NOTE" ledgerWorld "fst ?c" "snd ?c", THEN conjunct2, THEN conjunct1]
       a b c d
  show ?thesis
    by (simp add: ledgerWorld_def)
qed

text \<open>
  Claim C9 as stated fails for an order whose only transaction is an authorization: no
  transaction is a successful CAPTURE or SALE, yet the refund names that transaction as
  its parent and no fallback is warned about.
\<close>

theorem refund_only_against_capturable_counterexample:
  "find validTransaction
     [Some \<lparr>tx_id = Some ''tx-9'', tx_kind = Some ''AUTHORIZATION'',
            tx_status = Some ''SUCCESS''\<rparr>] = None \<and>
   authorizationOnly =
     Transactions [Some \<lparr>tx_id = Some ''tx-9'', tx_kind = Some ''AUTHORIZATION'',
                          tx_status = Some ''SUCCESS''\<rparr>] \<and>
   outbox (snd (processRewardRefund (acceptingShop (TotalAmount 100) authorizationOnly) 22
                  None ledgerWorld)) =
     [\<lparr> refund_note = REFUND_NOTE, refund_orderId = ''gid://shopify/Order/7'',
        refund_amount = 20, refund_via = ViaParent ''tx-9'' \<rparr>] \<and>
   warnings (snd (processRewardRefund (acceptingShop (TotalAmount 100) authorizationOnly) 22
                    None ledgerWorld)) = []"
  by code_simp

text \<open>
  Claim C10. When the order-total lookup returns exactly 0, the settlement of a PENDING
  reward with a resolved order computes no ceiling (\<open>maxRefundAllowed\<close> is null, for any
  settings): it is never rejected by the refund limit, whatever the amount of the reward
  and the sum already paid; the refund request for the amount of the reward is sent, a
  success reports a null ceiling, and the settlement succeeds when the platform accepts
  the first request.
\<close>

theorem zero_total_gives_no_ceiling:
  assumes "findReward rid w = Some reward" and "reward_status reward = PENDING"
    and "resolveOrderGid ov (rewardCode w reward) = Some g" and "truthy g"
    and "orderTotal env g = TotalAmount 0"
  shows "getOrderTotalAmount (orderTotal env g) = Some 0 \<and>
         maxRefundAllowedOf (getOrderTotalAmount (orderTotal env g)) settings = None \<and>
         (\<forall>left cur. fst (processRewardRefund env rid ov w) \<noteq> Inl (RefundLimitReached left cur)) \<and>
         (\<forall>res. fst (processRewardRefund env rid ov w) = Inr res \<longrightarrow>
            result_maxRefundAllowed res = None) \<and>
         (succeeded (refundCreate env 0) \<longrightarrow>
            (\<exists>res. fst (processRewardRefund env rid ov w) = Inr res)) \<and>
         (\<exists>n v. 0 < n \<and> outbox (snd (processRewardRefund env rid ov w)) = outbox w @ replicate n v \<and>
            refund_orderId v = g \<and> refund_amount v = reward_amount reward)"
proof -
  obtain w1 where bf: "backfillOrigin ov (rewardCode w reward) w = Inr w1"
    and eq: "processRewardRefund env rid ov w = settleAgainst env reward g w1"
    using processRewardRefund_resolved[OF assms(1-4)] by blast
  obtain s w2 where gs: "getReferralSettings w1 = (s, w2)"
    by (cases "getReferralSettings w1") blast
  have t: "getOrderTotalAmount (orderTotal env g) = Some 0"
    using assms(5) by (simp add: getOrderTotalAmount_def)
  have m: "\<And>s. maxRefundAllowedOf (getOrderTotalAmount (orderTotal env g)) s = None"
    using t by (simp add: maxRefundAllowedOf_def)
  have rid: "reward_id reward = rid"
    using assms(1) unfolding findReward_def by (rule find_key)
  have found1: "findReward (reward_id reward) w1 = Some reward"
    using assms(1) rid backfillOrigin_rewards[OF bf] by (simp add: findReward_def)
  have ok: "case None of None \<Rightarrow> True
         | Some c \<Rightarrow> \<not> fadd (getTotalRefundedForCode g w2) (reward_amount reward) > c" by simp
  note adm = settleAgainst_admitted[OF gs m ok found1]
  have ob: "outbox w1 = outbox w" using backfillOrigin_rewards[OF bf] by simp
  from adm eq t m ob show ?thesis by auto
qed

text \<open>
  With an order total of 0 and 30 already paid, the reward of 20 is settled: the result
  carries no ceiling and one refund request of 20 has been sent.
\<close>

theorem zero_total_gives_no_ceiling_witness:
  "orderTotal (acceptingShop (TotalAmount 0) saleTransactions) ''gid://shopify/Order/7'' = TotalAmount 0 \<and>
   fst (processRewardRefund (acceptingShop (TotalAmount 0) saleTransactions) 22 None ledgerWorld) =
     Inr \<lparr> result_rewardId = 22, result_totalRefunded = 50, result_maxRefundAllowed = None \<rparr> \<and>
   outbox (snd (processRewardRefund (acceptingShop (TotalAmount 0) saleTransactions) 22 None ledgerWorld)) =
     [\<lparr>refund_note = REFUND_NOTE, refund_orderId = ''gid://shopify/Order/7'',
       refund_amount = 20, refund_via = ViaParent ''tx-1''\<rparr>]"
proof -
  let ?env = "acceptingShop (TotalAmount 0) saleTransactions"
  let ?g = "''gid://shopify/Order/7''"
  have r22: "findReward 22 ledgerWorld = Some (sampleReward 22 1 (Some 12) 20 PENDING)" by code_simp
  have st: "reward_status (sampleReward 22 1 (Some 12) 20 PENDING) = PENDING"
    by (simp add: sampleReward_def)
  have g22: "resolveOrderGid None (rewardCode ledgerWorld (sampleReward 22 1 (Some 12) 20 PENDING)) = Some ?g"
    by code_simp
  have tg: "truthy ?g" by (simp add: truthy_def)
  have t: "orderTotal ?env ?g = TotalAmount 0" by (simp add: acceptingShop_def)
  have a: "fst (processRewardRefund ?env 22 None ledgerWorld) =
     Inr \<lparr> result_rewardId = 22, result_totalRefunded = 50, result_maxRefundAllowed = None \<rparr>"
    by code_simp
  have b: "outbox (snd (processRewardRefund ?env 22 None ledgerWorld)) =
     [\<lparr>refund_note = REFUND_NOTE, refund_orderId = ''gid://shopify/Order/7'',
       refund_amount = 20, refund_via = ViaParent ''tx-1''\<rparr>]"
    by code_simp
  from zero_total_gives_no_ceiling[OF r22 st g22 tg t] t a b show ?thesis by simp
qed


section \<open>Claims about referrers, settings and snapshots\<close>

text \<open>
  Claim C7, as amended. For an existing referrer (found by the customer id of the
  payload, and identified by its primary key) processed through get-or-create: when
  none of e-mail, first name and last name differs from the payload under strict
  inequality, the record is returned as read and the state, so its \<open>updatedAt\<close>, is
  unchanged; when one of them differs, the row is rewritten with \<open>updatedAt\<close> at the
  current time, each of the three fields taking the value of the payload when the
  payload carries one and keeping its stored value when the payload has null or no
  field. Under strict inequality a stored null equals an explicit null of the payload
  only.
\<close>

theorem referrer_contact_refresh:
  assumes "findReferrerByCustomerId (customer_id customer) w = Some existing"
    and "findReferrer (referrer_id existing) w = Some existing"
  shows "(\<not> needUpdate existing customer \<longrightarrow>
            getOrCreateReferrerFromCustomer customer w = (Inr existing, w)) \<and>
         (needUpdate existing customer \<longrightarrow>
            fst (getOrCreateReferrerFromCustomer customer w) =
              Inr (existing\<lparr>referrer_email := orElse (customer_email customer) (referrer_email existing),
                             referrer_firstName :=
                               orElse (customer_first_name customer) (referrer_firstName existing),
                             referrer_lastName :=
                               orElse (customer_last_name customer) (referrer_lastName existing),
                             referrer_updatedAt := clock w\<rparr>) \<and>
            findReferrer (referrer_id existing) (snd (getOrCreateReferrerFromCustomer customer w)) =
              Some (existing\<lparr>referrer_email := orElse (customer_email customer) (referrer_email existing),
                             referrer_firstName :=
                               orElse (customer_first_name customer) (referrer_firstName existing),
                             referrer_lastName :=
                               orElse (customer_last_name customer) (referrer_lastName existing),
                             referrer_updatedAt := clock w\<rparr>)) \<and>
         (\<forall>e. customer_email customer = Val e \<longrightarrow> orElse (customer_email customer) (referrer_email existing) = Some e) \<and>
         (customer_email customer = Null \<or> customer_email customer = Undefined \<longrightarrow>
            orElse (customer_email customer) (referrer_email existing) = referrer_email existing)"
proof -
  let ?f = "\<lambda>r. r\<lparr>referrer_email := orElse (customer_email customer) (referrer_email existing),
                         referrer_firstName :=
                           orElse (customer_first_name customer) (referrer_firstName existing),
                         referrer_lastName :=
                           orElse (customer_last_name customer) (referrer_lastName existing)\<rparr>"
  note upd = updateReferrer_result[OF assms(2), of ?f]
  show ?thesis
    using assms(1) upd
    by (auto simp: getOrCreateReferrerFromCustomer_def needUpdate_def)
qed


text \<open>
  The referrer stored with \<open>old@example.com\<close>: the same e-mail in the payload leaves
  the state untouched, another e-mail is written with the time of the update.
\<close>

theorem referrer_contact_refresh_witness:
  "getOrCreateReferrerFromCustomer (sampleCustomer ''501'' (Val ''old@example.com'')) registryWorld =
     (Inr (sampleReferrer 1 ''501'' (Some ''old@example.com'')), registryWorld) \<and>
   fst (getOrCreateReferrerFromCustomer (sampleCustomer ''501'' (Val ''new@example.com'')) registryWorld) =
     Inr ((sampleReferrer 1 ''501'' (Some ''new@example.com''))\<lparr>referrer_updatedAt := 5000\<rparr>) \<and>
   findReferrer 1 (snd (getOrCreateReferrerFromCustomer (sampleCustomer ''501'' (Val ''new@example.com'')) registryWorld)) =
     Some ((sampleReferrer 1 ''501'' (Some ''new@example.com''))\<lparr>referrer_updatedAt := 5000\<rparr>)"
proof -
  let ?e = "sampleReferrer 1 ''501'' (Some ''old@example.com'')"
  have a: "findReferrerByCustomerId (customer_id (sampleCustomer ''501'' (Val ''old@example.com''))) registryWorld = Some ?e"
    by code_simp
  have a': "findReferrerByCustomerId (customer_id (sampleCustomer ''501'' (Val ''new@example.com''))) registryWorld = Some ?e"
    by code_simp
  have b: "findReferrer (referrer_id ?e) registryWorld = Some ?e" by code_simp
  have n1: "\<not> needUpdate ?e (sampleCustomer ''501'' (Val ''old@example.com''))" by code_simp
  have n2: "needUpdate ?e (sampleCustomer ''501'' (Val ''new@example.com''))" by code_simp
  have c: "clock registryWorld = 5000" by (simp add: registryWorld_def)
  from referrer_contact_refresh[OF a b] referrer_contact_refresh[OF a' b] n1 n2 c
  show ?thesis
    by (simp add: sampleReferrer_def sampleCustomer_def)
qed

text \<open>
  Claim C7 as stated fails when the payload carries a null e-mail: it differs from the
  stored one, the row is rewritten, and its e-mail is still the stored one, not that of
  the payload.
\<close>

theorem referrer_matches_payload_counterexample:
  "map_option referrer_email (findReferrerByCustomerId ''501'' registryWorld) =
     Some (Some ''old@example.com'') \<and>
   customer_email (sampleCustomer ''501'' Null) = Null \<and>
   needUpdate (sampleReferrer 1 ''501'' (Some ''old@example.com'')) (sampleCustomer ''501'' Null) \<and>
   fst (getOrCreateReferrerFromCustomer (sampleCustomer ''501'' Null) registryWorld) =
     Inr ((sampleReferrer 1 ''501'' (Some ''old@example.com''))\<lparr>referrer_updatedAt := 5000\<rparr>) \<and>
   map_option referrer_email
     (findReferrerByCustomerId ''501''
        (snd (getOrCreateReferrerFromCustomer (sampleCustomer ''501'' Null) registryWorld))) =
     Some (Some ''old@example.com'')"
  by code_simp


text \<open>
  Claim C8. A reward is created PENDING with the cashback amount of the settings it is
  given; a settings update changes neither the reward table nor the code table, and the
  settings read after it are the updated ones; a settlement changes no amount of any
  reward; a code is created with the discount and cashback snapshots of the settings it
  is given.
\<close>

theorem amounts_fixed_at_creation:
  "(createPendingReward referrerId referralId settings currency productId productTitle w = (Inr reward, w1) \<longrightarrow>
      reward_amount reward = cashbackAmount settings \<and> reward_status reward = PENDING \<and>
      rewards w1 = rewards w @ [reward]) \<and>
   rewards (snd (updateReferralSettings partial w)) = rewards w \<and>
   codes (snd (updateReferralSettings partial w)) = codes w \<and>
   getReferralSettings (snd (updateReferralSettings partial w)) =
     (fst (updateReferralSettings partial w), snd (updateReferralSettings partial w)) \<and>
   (\<forall>v. partial_cashbackAmount partial = Some v \<longrightarrow>
      cashbackAmount (fst (updateReferralSettings partial w)) = v) \<and>
   map reward_amount (rewards (snd (processRewardRefund env rid ov w))) =
     map reward_amount (rewards w) \<and>
   (createCodeForReferrer gen rrid settings gid oid pid ptitle qty w = (Inr code, w2) \<longrightarrow>
      code_cashbackSnapshot code = Some (cashbackAmount settings) \<and>
      code_discountSnapshot code = Some (discountPercentage settings) \<and>
      codes w2 = codes w @ [code])"
proof (intro conjI impI allI)
  assume a: "createPendingReward referrerId referralId settings currency productId productTitle w = (Inr reward, w1)"
  from a show "reward_amount reward = cashbackAmount settings"
    by (auto simp: createPendingReward_def dest!: insertReward_result)
  from a show "reward_status reward = PENDING"
    by (auto simp: createPendingReward_def dest!: insertReward_result)
  from a show "rewards w1 = rewards w @ [reward]"
    by (auto simp: createPendingReward_def dest!: insertReward_result)
next
  show "rewards (snd (updateReferralSettings partial w)) = rewards w"
    by (simp add: updateReferralSettings_frame)
  show "codes (snd (updateReferralSettings partial w)) = codes w"
    by (simp add: updateReferralSettings_frame)
  show "getReferralSettings (snd (updateReferralSettings partial w)) =
     (fst (updateReferralSettings partial w), snd (updateReferralSettings partial w))"
    by (rule updateReferralSettings_read_back)
  show "map reward_amount (rewards (snd (processRewardRefund env rid ov w))) =
     map reward_amount (rewards w)"
    by (rule processRewardRefund_amounts)
next
  fix v assume "partial_cashbackAmount partial = Some v"
  then show "cashbackAmount (fst (updateReferralSettings partial w)) = v"
    by (rule updateReferralSettings_cashback)
next
  assume a: "createCodeForReferrer gen rrid settings gid oid pid ptitle qty w = (Inr code, w2)"
  from a show "code_cashbackSnapshot code = Some (cashbackAmount settings)"
    by (auto simp: createCodeForReferrer_def Let_def split: if_splits dest!: insertCode_result)
  from a show "code_discountSnapshot code = Some (discountPercentage settings)"
    by (auto simp: createCodeForReferrer_def Let_def split: if_splits dest!: insertCode_result)
  from a show "codes w2 = codes w @ [code]"
    by (auto simp: createCodeForReferrer_def Let_def split: if_splits dest!: insertCode_result)
qed


text \<open>
  A reward is created while the cashback amount is 20, then the settings are updated to
  50: the reward still reads 20, and a code minted with the settings read after the
  update snapshots 50.
\<close>

theorem amounts_fixed_at_creation_witness:
  "cashbackAmount (fst (getReferralSettings registryWorld)) = 20 \<and>
   fst (createPendingReward 1 None (fst (getReferralSettings registryWorld)) None None None
          registryWorld) =
     Inr ((sampleReward 100 1 None 20 PENDING)
            \<lparr>reward_createdAt := 5000, reward_updatedAt := 5000\<rparr>) \<and>
   map reward_amount
     (rewards (snd (updateReferralSettings (noChange\<lparr>partial_cashbackAmount := Some 50\<rparr>)
                      (snd (createPendingReward 1 None (fst (getReferralSettings registryWorld))
                              None None None registryWorld))))) = [20] \<and>
   cashbackAmount
     (fst (getReferralSettings
             (snd (updateReferralSettings (noChange\<lparr>partial_cashbackAmount := Some 50\<rparr>)
                     (snd (createPendingReward 1 None (fst (getReferralSettings registryWorld))
                             None None None registryWorld)))))) = 50 \<and>
   map_sum id code_cashbackSnapshot
     (fst (createCodeForReferrer (\<lambda>n. ''NEW-0001'') 1
             (fst (getReferralSettings
                     (snd (updateReferralSettings
                             (noChange\<lparr>partial_cashbackAmount := Some 50\<rparr>)
                             (snd (createPendingReward 1 None
                                     (fst (getReferralSettings registryWorld)) None None None
                                     registryWorld))))))
             None None None None None
             (snd (updateReferralSettings (noChange\<lparr>partial_cashbackAmount := Some 50\<rparr>)
                     (snd (createPendingReward 1 None (fst (getReferralSettings registryWorld))
                             None None None registryWorld)))))) = Inr (Some 50)"
proof -
  let ?s = "fst (getReferralSettings registryWorld)"
  let ?c = "createPendingReward 1 None ?s None None None registryWorld"
  let ?r = "(sampleReward 100 1 None 20 PENDING)
              \<lparr>reward_createdAt := 5000, reward_updatedAt := 5000\<rparr>"
  let ?w2 = "snd (updateReferralSettings (noChange\<lparr>partial_cashbackAmount := Some 50\<rparr>)
                    (snd ?c))"
  let ?k = "createCodeForReferrer (\<lambda>n. ''NEW-0001'') 1 (fst (getReferralSettings ?w2))
              None None None None None ?w2"
  have s20: "cashbackAmount ?s = 20" by code_simp
  have c: "fst ?c = Inr ?r" by code_simp
  then have c': "?c = (Inr ?r, snd ?c)" by (metis prod.collapse)
  have old: "rewards registryWorld = []" by (simp add: registryWorld_def)
  have s50: "cashbackAmount (fst (getReferralSettings ?w2)) = 50" by code_simp
  obtain code where k: "fst ?k = Inr code" by (cases "fst ?k") (simp_all, code_simp)
  then have k': "?k = (Inr code, snd ?k)" by (metis prod.collapse)
  note t = amounts_fixed_at_creation[of 1 None ?s None None None registryWorld ?r "snd ?c"
      "noChange\<lparr>partial_cashbackAmount := Some 50\<rparr>" _ _ _ "\<lambda>n. ''NEW-0001''" 1 None None
      None None None code "snd ?k"]
  from t c' have r1: "rewards (snd ?c) = [?r]" using old by simp
  have r2: "rewards ?w2 = rewards (snd ?c)"
    by (simp add: updateReferralSettings_frame)
  have a3: "map reward_amount (rewards ?w2) = [20]"
    using r1 r2 by (simp add: sampleReward_def)
  have a5: "map_sum id code_cashbackSnapshot (fst ?k) = Inr (Some 50)" by code_simp
  from s20 c a3 s50 a5 show ?thesis by simp
qed




text \<open>
  Claim C5, as amended. When the event of a purchase finds a code to work on (the code
  already attached to this order id, else the most recent code of the referrer, which
  exists as soon as the referrer has a code), no code is minted: the code table keeps
  its primary keys, and the selected code keeps its code string and owner. Its expiry
  (now plus the validity days, or null when they are not positive), its maximal usage
  and its discount and cashback snapshots are those of the settings read by the event.
  Its origin order id and its quantity are always those of the new purchase; its origin
  order gid, product id and product title are those of the new purchase whenever the
  event carries them, and the stored ones only when it does not.
\<close>

theorem repeat_purchase_refreshes_code:
  assumes "payload_id payload = Some orderId" and "truthy orderId"
    and "payload_customer payload = Some customer" and "truthy (customer_id customer)"
    and "distinct (map code_id (codes w))"
    and "getOrCreateReferrerFromCustomer customer (snd (getReferralSettings w)) = (Inr referrer, w2)"
    and "selectCode orderId (referrer_id referrer) w2 = Some codeRecord"
    and "settings = fst (getReferralSettings w)"
    and "product = primaryProduct (fetchOrderById env)"
  shows "map code_id (codes (snd (action env (Some payload) w))) = map code_id (codes w) \<and>
         (\<exists>c. findCode (code_id codeRecord) (snd (action env (Some payload) w)) = Some c \<and>
              code_code c = code_code codeRecord \<and>
              code_referrerId c = code_referrerId codeRecord \<and>
              code_expiresAt c =
                (if codeValidityDays settings > 0
                 then Some (addDays (clock w) (codeValidityDays settings)) else None) \<and>
              code_maxUsage c = maxUsagePerCode settings \<and>
              code_discountSnapshot c = Some (discountPercentage settings) \<and>
              code_cashbackSnapshot c = Some (cashbackAmount settings) \<and>
              code_originOrderId c = Some orderId \<and>
              code_originOrderGid c =
                keep (payload_admin_graphql_api_id payload) (code_originOrderGid codeRecord) \<and>
              code_workshopProductId c =
                keep (workshopProductId product) (code_workshopProductId codeRecord) \<and>
              code_workshopProductTitle c =
                keep (workshopProductTitle product) (code_workshopProductTitle codeRecord) \<and>
              code_workshopQuantity c = workshopQuantity product) \<and>
         (\<forall>rid. list_ex (\<lambda>c. code_referrerId c = rid) (codes w2) \<longrightarrow>
                selectCode orderId rid w2 \<noteq> None)"
proof -
  let ?w1 = "snd (getReferralSettings w)"
  have c2: "codes w2 = codes w" "clock w2 = clock w"
    using getOrCreateReferrerFromCustomer_frame[OF assms(6)] getReferralSettings_frame[of w]
    by auto
  let ?i = "issueOrRefreshCode env payload orderId settings product referrer w2"
  obtain r3 w3 where i: "?i = (r3, w3)" by (cases ?i) blast
  have d2: "distinct (map code_id (codes w2))" using assms(5) c2 by simp
  note rf = issueOrRefreshCode_refresh[OF assms(7) d2 i]
  let ?w' = "snd (action env (Some payload) w)"
  have act: "?w' = snd (processOrderPaid env payload customer orderId w)"
    using assms(1-4) by (simp add: action_def)
  have "?w' = w3 \<or>
        ?w' = snd (recordReferredPurchase payload customer orderId settings product w3)"
    unfolding act using assms(6,8,9) i
    by (cases r3) (auto simp: processOrderPaid_def)
  then have "?w' = w3 \<or> (\<exists>res. recordReferredPurchase payload customer orderId settings
                                 product w3 = (res, ?w'))"
    by (metis prod.collapse)
  then have t: "map codeTerms (codes ?w') = map codeTerms (codes w3)"
    using recordReferredPurchase_terms by auto
  from codeTerms_find[OF t, of "code_id codeRecord"] rf
  have terms: "map_option codeTerms (findCode (code_id codeRecord) ?w') =
           Some (codeTerms (refreshCode codeRecord orderId (payload_admin_graphql_api_id payload)
                              product settings (clock w2) codeRecord))"
    by (simp add: findCode_def)
  then obtain c where c: "findCode (code_id codeRecord) ?w' = Some c"
    and ct: "codeTerms c = codeTerms (refreshCode codeRecord orderId
               (payload_admin_graphql_api_id payload) product settings (clock w2) codeRecord)"
    by auto
  have ids: "map code_id (codes ?w') = map code_id (codes w)"
    using codeTerms_ids[OF t] rf c2 by simp
  have sel: "\<forall>rid. list_ex (\<lambda>c. code_referrerId c = rid) (codes w2) \<longrightarrow>
                selectCode orderId rid w2 \<noteq> None"
    using selectCode_exists by blast
  from ct c2 have fields:
     "code_code c = code_code codeRecord \<and>
      code_referrerId c = code_referrerId codeRecord \<and>
      code_expiresAt c =
                (if codeValidityDays settings > 0
                 then Some (addDays (clock w) (codeValidityDays settings)) else None) \<and>
      code_maxUsage c = maxUsagePerCode settings \<and>
      code_discountSnapshot c = Some (discountPercentage settings) \<and>
      code_cashbackSnapshot c = Some (cashbackAmount settings) \<and>
      code_originOrderId c = Some orderId \<and>
      code_originOrderGid c =
                keep (payload_admin_graphql_api_id payload) (code_originOrderGid codeRecord) \<and>
      code_workshopProductId c =
                keep (workshopProductId product) (code_workshopProductId codeRecord) \<and>
      code_workshopProductTitle c =
                keep (workshopProductTitle product) (code_workshopProductTitle codeRecord) \<and>
      code_workshopQuantity c = workshopQuantity product"
    by (simp add: codeTerms_def refreshCode_def)
  from ids c fields sel show ?thesis by blast
qed

text \<open>
  The referrer of code 2 buys again: the only code is still code 2, refreshed to expire
  30 days after the event, with the snapshots of the current settings.
\<close>

theorem repeat_purchase_refreshes_code_witness:
  "map code_id (codes (snd (action (quietEnv landscapeOrder ''NEW-0001'') (Some repeatPurchase)
                              registryWorld))) = map code_id (codes registryWorld) \<and>
   map code_id (codes registryWorld) = [2] \<and>
   map_option (\<lambda>c. (code_expiresAt c, code_maxUsage c, code_discountSnapshot c,
                     code_cashbackSnapshot c))
     (findCode 2 (snd (action (quietEnv landscapeOrder ''NEW-0001'') (Some repeatPurchase)
                         registryWorld))) =
     Some (Some 2592005000, 0, Some (1 / 10), Some 20)"
proof -
  let ?env = "quietEnv landscapeOrder ''NEW-0001''"
  let ?c = "sampleCustomer ''501'' (Val ''old@example.com'')"
  let ?r = "sampleReferrer 1 ''501'' (Some ''old@example.com'')"
  let ?code = "(sampleCode 2 ''ABC-1234'' 1 (Some ''gid://shopify/Order/7''))
                  \<lparr>code_originOrderId := Some ''7'',
                   code_workshopProductId := Some ''900'',
                   code_workshopProductTitle := Some ''Atelier portrait'',
                   code_cashbackSnapshot := Some 20,
                   code_discountSnapshot := Some (1 / 10)\<rparr>"
  have h1: "payload_id repeatPurchase = Some ''9''" by (simp add: repeatPurchase_def)
  have h2: "truthy ''9''" by (simp add: truthy_def)
  have h3: "payload_customer repeatPurchase = Some ?c" by (simp add: repeatPurchase_def)
  have h4: "truthy (customer_id ?c)" by (simp add: truthy_def sampleCustomer_def)
  have h5: "distinct (map code_id (codes registryWorld))" by (simp add: registryWorld_def)
  have h6: "getOrCreateReferrerFromCustomer ?c (snd (getReferralSettings registryWorld)) =
              (Inr ?r, registryWorld)"
    by code_simp
  have h7: "selectCode ''9'' (referrer_id ?r) registryWorld = Some ?code" by code_simp
  have ids: "map code_id (codes registryWorld) = [2]" by code_simp
  have v: "map_option (\<lambda>c. (code_expiresAt c, code_maxUsage c, code_discountSnapshot c,
                     code_cashbackSnapshot c))
     (findCode 2 (snd (action ?env (Some repeatPurchase) registryWorld))) =
     Some (Some 2592005000, 0, Some (1 / 10), Some 20)"
    by code_simp
  from repeat_purchase_refreshes_code[OF h1 h2 h3 h4 h5 h6 h7 refl refl, of ?env] ids v
  show ?thesis by simp
qed

text \<open>
  Claim C5 as stated fails: code 2 carried order 7 and the portrait workshop, and after
  the second purchase it carries order 9 and the landscape workshop.
\<close>

theorem first_purchase_wins_counterexample:
  "map_option (\<lambda>c. (code_originOrderId c, code_originOrderGid c, code_workshopProductId c,
                     code_workshopProductTitle c))
     (findCode 2 registryWorld) =
     Some (Some ''7'', Some ''gid://shopify/Order/7'', Some ''900'', Some ''Atelier portrait'') \<and>
   map_option (\<lambda>c. (code_originOrderId c, code_originOrderGid c, code_workshopProductId c,
                     code_workshopProductTitle c))
     (findCode 2 (snd (action (quietEnv landscapeOrder ''NEW-0001'') (Some repeatPurchase)
                         registryWorld))) =
     Some (Some ''9'', Some ''gid://shopify/Order/9'', Some ''901'', Some ''Atelier paysage'')"
  by code_simp


end
